theory Spec2Isabelle
  imports Main "HOL-Library.Word" "HOL-Library.AList"
begin

section \<open>The metadata worker of sharp (src/metadata.cc)\<close>

text \<open>
  The file holds one asynchronous worker, \<open>MetadataWorker\<close>, and the method \<open>metadata\<close>
  that submits it. The worker's three member functions (constructor, \<open>Execute\<close>,
  \<open>HandleOKCallback\<close>) are embedded as functions that take the worker object and the
  state of the process and return them updated. The process state holds the queued-task
  counter, the C heap and the sequence of calls made into the host runtime and into
  libvips, in program order.
\<close>

subsection \<open>Values\<close>

type_synonym byte = "8 word"
type_synonym addr = nat

definition NULL :: addr where
  "NULL = 0"

text \<open>JavaScript values as far as the file builds or receives them.\<close>

datatype v8_value =
    Undefined
  | Null
  | Boolean bool
  | Uint32 "32 word"
  | String string
  | Function nat
  | Buffer addr nat
  | Error string
  | Object "(string \<times> v8_value) list"

text \<open>
  A \<open>const char *\<close> read as a string ends at its first NUL: \<open>err.what()\<close>,
  \<open>vips_enum_nick(...)\<close> and \<open>baton->err.data()\<close> are read this way.
\<close>

definition c_str :: "string \<Rightarrow> string" where
  "c_str s = takeWhile (\<lambda>c. c \<noteq> CHR 0x00) s"

text \<open>\<open>Nan::Set(info, key, value)\<close>: the property is added, or replaced when present.\<close>

definition Nan_Set :: "(string \<times> v8_value) list \<Rightarrow> string \<Rightarrow> v8_value \<Rightarrow> (string \<times> v8_value) list" where
  "Nan_Set info key v = AList.update key v info"

text \<open>\<open>info[i]\<close> of a method call: \<open>undefined\<close> beyond the arguments passed.\<close>

definition arg :: "v8_value list \<Rightarrow> nat \<Rightarrow> v8_value" where
  "arg info i = (if i < length info then info ! i else Undefined)"

subsection \<open>Process state\<close>

text \<open>
  The calls the file makes into Nan, GLib and libvips whose order the specification
  speaks about. \<open>delete_input\<close> and \<open>delete_baton\<close> are the two \<open>delete\<close>
  expressions of \<open>HandleOKCallback\<close>; \<open>callback_Call cb argv\<close> is
  \<open>callback->Call(2, argv)\<close>.
\<close>

datatype call =
    SaveToPersistent "32 word" v8_value
  | GetFromPersistent "32 word"
  | AsyncQueueWorker
  | g_atomic_int_inc
  | g_atomic_int_dec_and_test
  | vips_error_clear
  | vips_thread_shutdown
  | delete_input
  | delete_baton
  | callback_Call v8_value "v8_value list"

record world =
  counterQueue :: "32 word"
  cells :: "addr \<rightharpoonup> byte list"
  brk :: addr
  calls :: "call list"

definition record_call :: "call \<Rightarrow> world \<Rightarrow> world" where
  "record_call c w = w\<lparr>calls := calls w @ [c]\<rparr>"

text \<open>
  \<open>sharp::counterQueue\<close> is a 32-bit \<open>gint\<close>; GLib's atomic operations wrap around.
  The result of \<open>g_atomic_int_dec_and_test\<close> is discarded by the source.
\<close>

definition atomic_int_inc :: "world \<Rightarrow> world" where
  "atomic_int_inc w = record_call g_atomic_int_inc (w\<lparr>counterQueue := counterQueue w + 1\<rparr>)"

definition atomic_int_dec_and_test :: "world \<Rightarrow> world" where
  "atomic_int_dec_and_test w =
     record_call g_atomic_int_dec_and_test (w\<lparr>counterQueue := counterQueue w - 1\<rparr>)"

text \<open>
  The C heap: blocks by address, and the next address \<open>g_malloc\<close> hands out.
  \<open>g_malloc(0)\<close> returns \<open>NULL\<close> and allocates nothing; otherwise it returns a new
  block (its bytes are indeterminate in C; the source overwrites all of them before
  reading). \<open>memcpy(dest, src, n)\<close> overwrites the first \<open>n\<close> bytes of the block at
  \<open>dest\<close>; with \<open>n = 0\<close> nothing is written. Where \<open>dest\<close> is no block the state is
  left as it is: the source gets there only with \<open>NULL\<close> and \<open>n = 0\<close>.
\<close>

definition g_malloc :: "nat \<Rightarrow> world \<Rightarrow> addr \<times> world" where
  "g_malloc n w =
     (if n = 0 then (NULL, w)
      else (brk w, w\<lparr>cells := (cells w)(brk w \<mapsto> replicate n 0), brk := Suc (brk w)\<rparr>))"

definition memcpy :: "addr \<Rightarrow> byte list \<Rightarrow> nat \<Rightarrow> world \<Rightarrow> world" where
  "memcpy dest src n w =
     (case cells w dest of
        None \<Rightarrow> w
      | Some old \<Rightarrow> w\<lparr>cells := (cells w)(dest \<mapsto> take n src @ drop n old)\<rparr>)"

text \<open>Reading \<open>n\<close> bytes at an address; no byte is touched when \<open>n = 0\<close>.\<close>

definition load :: "world \<Rightarrow> addr \<Rightarrow> nat \<Rightarrow> byte list option" where
  "load w p n =
     (if n = 0 then Some []
      else case cells w p of
             None \<Rightarrow> None
           | Some bs \<Rightarrow> if n \<le> length bs then Some (take n bs) else None)"

text \<open>
  The allocator's invariant: \<open>NULL\<close> is no block and is never handed out, and every
  live block lies below the next address.
\<close>

definition heap_ok :: "world \<Rightarrow> bool" where
  "heap_ok w = (cells w NULL = None \<and> NULL < brk w \<and> (\<forall>a. brk w \<le> a \<longrightarrow> cells w a = None))"

subsection \<open>The decode engine and common.h\<close>

text \<open>
  libvips' image handle, as far as \<open>Execute\<close> reads it: the header fields and the
  metadata attached by name. \<open>get_typeof\<close> gives the type of a metadata field (0 when
  absent) and \<open>get_blob\<close> its bytes; the binding raises on a field that is not a blob,
  and the source calls it only under the \<open>get_typeof\<close> test, so that \<open>get_blob\<close> is
  left without a value there.
\<close>

datatype VipsAccess = VIPS_ACCESS_RANDOM | VIPS_ACCESS_SEQUENTIAL | VIPS_ACCESS_SEQUENTIAL_UNBUFFERED

datatype GValue = VipsBlob "byte list" | OtherGValue

datatype GType = G_TYPE_INVALID | VIPS_TYPE_BLOB | G_TYPE_OTHER

record VImage =
  width :: int
  height :: int
  vips_interpretation :: int
  bands :: int
  meta :: "string \<rightharpoonup> GValue"

definition get_typeof :: "VImage \<Rightarrow> string \<Rightarrow> GType" where
  "get_typeof img name =
     (case meta img name of
        None \<Rightarrow> G_TYPE_INVALID
      | Some (VipsBlob bs) \<Rightarrow> VIPS_TYPE_BLOB
      | Some OtherGValue \<Rightarrow> G_TYPE_OTHER)"

definition get_blob :: "VImage \<Rightarrow> string \<Rightarrow> byte list" where
  "get_blob img name = (case meta img name of Some (VipsBlob bs) \<Rightarrow> bs)"

definition VIPS_META_EXIF_NAME :: string where
  "VIPS_META_EXIF_NAME = ''exif-data''"

definition VIPS_META_ICC_NAME :: string where
  "VIPS_META_ICC_NAME = ''icc-profile-data''"

text \<open>
  \<open>sharp::ImageType\<close> is declared in common.h, which is not among the sources; the
  file names one member, \<open>UNKNOWN\<close>. The other members are kept as a parameter.
\<close>

datatype 'f ImageType = UNKNOWN | Recognised 'f

text \<open>
  The functions of common.cc and libvips that the file calls, taken as parameters.
  \<open>OpenInput\<close> either raises \<open>vips::VError\<close> (\<open>Inl\<close>, carrying \<open>what()\<close>) or
  returns the image with its detected type. \<open>CreateInputDescriptor\<close> returns the
  descriptor and the vector \<open>buffersToPersist\<close> it was given by reference.
\<close>

record ('inp, 'f) common =
  AttrAs :: "v8_value \<Rightarrow> string \<Rightarrow> v8_value"
  CreateInputDescriptor :: "v8_value \<Rightarrow> v8_value list \<Rightarrow> 'inp \<times> v8_value list"
  OpenInput :: "'inp \<Rightarrow> VipsAccess \<Rightarrow> string + VImage \<times> 'f ImageType"
  ImageTypeId :: "'f ImageType \<Rightarrow> string"
  vips_enum_nick :: "int \<Rightarrow> string"
  HasDensity :: "VImage \<Rightarrow> bool"
  GetDensity :: "VImage \<Rightarrow> int"
  HasProfile :: "VImage \<Rightarrow> bool"
  HasAlpha :: "VImage \<Rightarrow> bool"
  ExifOrientation :: "VImage \<Rightarrow> int"


subsection \<open>The baton and the worker\<close>

record 'inp MetadataBaton =
  input :: 'inp
  format :: string
  width :: int
  height :: int
  space :: string
  channels :: int
  density :: int
  hasProfile :: bool
  hasAlpha :: bool
  orientation :: int
  exif :: addr
  exifLength :: nat
  icc :: addr
  iccLength :: nat
  err :: string

definition MetadataBaton_new :: "'inp MetadataBaton \<Rightarrow> bool" where
  \<comment> \<open>Modelled from the spec: the constructor of MetadataBaton is in metadata.h, which is
      not among the sources. The spec's data model gives the state of a baton at creation:
      no error message, density 0, orientation 0, exif and icc lengths 0. The other
      fields are not constrained.\<close>
  "MetadataBaton_new b =
     (err b = [] \<and> density b = 0 \<and> orientation b = 0 \<and> exifLength b = 0 \<and> iccLength b = 0)"

record 'inp MetadataWorker =
  callback :: v8_value
  baton :: "'inp MetadataBaton"
  buffersToPersist :: "v8_value list"

text \<open>
  The constructor: \<open>std::accumulate\<close> over \<open>buffersToPersist\<close> from index 0, saving each
  buffer under its index. The lambda's index is a \<open>uint32_t\<close>.
\<close>

definition MetadataWorker_ctor ::
  "v8_value \<Rightarrow> 'inp MetadataBaton \<Rightarrow> v8_value list \<Rightarrow> world \<Rightarrow> 'inp MetadataWorker \<times> world" where
  "MetadataWorker_ctor cb b bufs w =
     (let (index, w) =
        foldl (\<lambda>(index, w) buffer. (index + 1, record_call (SaveToPersistent index buffer) w))
          (0, w) bufs
      in (\<lparr>callback = cb, baton = b, buffersToPersist = bufs\<rparr>, w))"

text \<open>
  \<open>Execute\<close>, the body run on the pool thread. The locals \<open>image\<close> and \<open>imageType\<close>
  start as the empty image handle (\<open>None\<close>) and \<open>UNKNOWN\<close>; the \<open>try\<close> block assigns
  both when \<open>OpenInput\<close> returns, and the \<open>catch\<close> clause appends \<open>err.what()\<close> to the
  baton's error field when it raises. The image handle is read only under
  \<open>imageType != UNKNOWN\<close>, where it has been assigned. The function has no other exit
  than its end, which the two cleanup calls precede.
\<close>

definition Execute ::
  "('inp, 'f) common \<Rightarrow> 'inp MetadataWorker \<Rightarrow> world \<Rightarrow> 'inp MetadataWorker \<times> world" where
  "Execute env wk w0 =
     (let w = atomic_int_dec_and_test w0;
          b = baton wk;
          (b, opened, imageType) =
            (case OpenInput env (input b) VIPS_ACCESS_SEQUENTIAL of
               Inl what \<Rightarrow> (b\<lparr>err := err b @ c_str what\<rparr>, None, UNKNOWN)
             | Inr (img, ty) \<Rightarrow> (b, Some img, ty));
          (b, w) =
            (if imageType \<noteq> UNKNOWN then
               (case opened of
                  None \<Rightarrow> (b, w)
                | Some img \<Rightarrow>
                    (let b = b\<lparr>format := ImageTypeId env imageType\<rparr>;
                         b = b\<lparr>width := VImage.width img\<rparr>;
                         b = b\<lparr>height := VImage.height img\<rparr>;
                         b = b\<lparr>space := c_str (vips_enum_nick env (vips_interpretation img))\<rparr>;
                         b = b\<lparr>channels := bands img\<rparr>;
                         b = (if HasDensity env img then b\<lparr>density := GetDensity env img\<rparr> else b);
                         b = b\<lparr>hasProfile := HasProfile env img\<rparr>;
                         b = b\<lparr>hasAlpha := HasAlpha env img\<rparr>;
                         b = b\<lparr>orientation := ExifOrientation env img\<rparr>;
                         (b, w) =
                           (if get_typeof img VIPS_META_EXIF_NAME = VIPS_TYPE_BLOB then
                              (let blob = get_blob img VIPS_META_EXIF_NAME;
                                   exifLength = length blob;
                                   (p, w) = g_malloc exifLength w;
                                   b = b\<lparr>exif := p\<rparr>;
                                   w = memcpy (exif b) blob exifLength w;
                                   b = b\<lparr>exifLength := exifLength\<rparr>
                               in (b, w))
                            else (b, w));
                         (b, w) =
                           (if get_typeof img VIPS_META_ICC_NAME = VIPS_TYPE_BLOB then
                              (let blob = get_blob img VIPS_META_ICC_NAME;
                                   iccLength = length blob;
                                   (p, w) = g_malloc iccLength w;
                                   b = b\<lparr>icc := p\<rparr>;
                                   w = memcpy (icc b) blob iccLength w;
                                   b = b\<lparr>iccLength := iccLength\<rparr>
                               in (b, w))
                            else (b, w))
                     in (b, w)))
             else (b, w));
          w = record_call vips_error_clear w;
          w = record_call vips_thread_shutdown w
      in (wk\<lparr>baton := b\<rparr>, w))"

text \<open>
  \<open>HandleOKCallback\<close>, run on the main thread after \<open>Execute\<close>: the two callback
  arguments start as \<open>null\<close>; the first becomes an \<open>Error\<close> made from the error string
  when that is not empty, otherwise the second becomes the metadata object.
\<close>

definition HandleOKCallback :: "'inp MetadataWorker \<Rightarrow> world \<Rightarrow> world" where
  "HandleOKCallback wk w0 =
     (let b = baton wk;
          argv = [Null, Null];
          argv =
            (if err b \<noteq> [] then argv[0 := Error (c_str (err b))]
             else
               (let info = [];
                    info = Nan_Set info ''format'' (String (format b));
                    info = Nan_Set info ''width'' (Uint32 (word_of_int (width b)));
                    info = Nan_Set info ''height'' (Uint32 (word_of_int (height b)));
                    info = Nan_Set info ''space'' (String (space b));
                    info = Nan_Set info ''channels'' (Uint32 (word_of_int (channels b)));
                    info = (if density b > 0
                            then Nan_Set info ''density'' (Uint32 (word_of_int (density b)))
                            else info);
                    info = Nan_Set info ''hasProfile'' (Boolean (hasProfile b));
                    info = Nan_Set info ''hasAlpha'' (Boolean (hasAlpha b));
                    info = (if orientation b > 0
                            then Nan_Set info ''orientation'' (Uint32 (word_of_int (orientation b)))
                            else info);
                    info = (if exifLength b > 0
                            then Nan_Set info ''exif'' (Buffer (exif b) (exifLength b))
                            else info);
                    info = (if iccLength b > 0
                            then Nan_Set info ''icc'' (Buffer (icc b) (iccLength b))
                            else info)
                in argv[1 := Object info]));
          (index, w) =
            foldl (\<lambda>(index, w) buffer. (index + 1, record_call (GetFromPersistent index) w))
              (0 :: 32 word, w0) (buffersToPersist wk);
          w = record_call delete_input w;
          w = record_call delete_baton w
      in record_call (callback_Call (callback wk) argv) w)"

text \<open>
  \<open>NAN_METHOD(metadata)\<close>. \<open>b_new\<close> is the object \<open>new MetadataBaton\<close> yields. The
  worker is constructed before \<open>Nan::AsyncQueueWorker\<close> receives it.
\<close>

definition metadata ::
  "('inp, 'f) common \<Rightarrow> v8_value list \<Rightarrow> 'inp MetadataBaton \<Rightarrow> world \<Rightarrow> 'inp MetadataWorker \<times> world" where
  "metadata env info b_new w =
     (let bufs = [];
          b = b_new;
          options = arg info 0;
          (inp, bufs) = CreateInputDescriptor env (AttrAs env options ''input'') bufs;
          b = b\<lparr>input := inp\<rparr>;
          cb = arg info 1;
          (wk, w) = MetadataWorker_ctor cb b bufs w;
          w = record_call AsyncQueueWorker w;
          w = atomic_int_inc w
      in (wk, w))"

text \<open>
  One task from submission to completion. \<open>Nan::AsyncQueueWorker\<close> runs \<open>Execute\<close> on
  a pool thread and afterwards, the worker's error message never being set by this
  file, \<open>HandleOKCallback\<close> on the main thread.
\<close>

definition run_task ::
  "('inp, 'f) common \<Rightarrow> v8_value list \<Rightarrow> 'inp MetadataBaton \<Rightarrow> world \<Rightarrow> world" where
  "run_task env info b_new w =
     (let (wk, w) = metadata env info b_new w;
          (wk, w) = Execute env wk w
      in HandleOKCallback wk w)"

subsection \<open>Observations on the sequence of calls\<close>

text \<open>The calls made between two states of the process.\<close>

definition task_calls :: "world \<Rightarrow> world \<Rightarrow> call list" where
  "task_calls w w' = drop (length (calls w)) (calls w')"

text \<open>The argument vectors handed to the completion callback, in order.\<close>

fun callback_argvs :: "call list \<Rightarrow> v8_value list list" where
  "callback_argvs [] = []"
| "callback_argvs (callback_Call cb argv # cs) = argv # callback_argvs cs"
| "callback_argvs (c # cs) = callback_argvs cs"

text \<open>The buffers saved to the worker's persistent handle, and the indices read back.\<close>

fun pins :: "call list \<Rightarrow> (32 word \<times> v8_value) list" where
  "pins [] = []"
| "pins (SaveToPersistent i buffer # cs) = (i, buffer) # pins cs"
| "pins (c # cs) = pins cs"

fun unpins :: "call list \<Rightarrow> 32 word list" where
  "unpins [] = []"
| "unpins (GetFromPersistent i # cs) = i # unpins cs"
| "unpins (c # cs) = unpins cs"

text \<open>
  The metadata record of a baton as the specification's result assembly gives it: the
  fields format, width, height, space, channels, hasProfile and hasAlpha always, and
  density, orientation, exif and icc only when the baton's density, orientation, exif
  length and icc length are above 0. It is stated apart from \<open>HandleOKCallback\<close>, to be
  compared with the object that function builds.
\<close>

definition metadata_record :: "'inp MetadataBaton \<Rightarrow> (string \<times> v8_value) list" where
  "metadata_record b =
     [(''format'', String (format b)),
      (''width'', Uint32 (word_of_int (width b))),
      (''height'', Uint32 (word_of_int (height b))),
      (''space'', String (space b)),
      (''channels'', Uint32 (word_of_int (channels b)))]
     @ (if density b > 0 then [(''density'', Uint32 (word_of_int (density b)))] else [])
     @ [(''hasProfile'', Boolean (hasProfile b)),
        (''hasAlpha'', Boolean (hasAlpha b))]
     @ (if orientation b > 0 then [(''orientation'', Uint32 (word_of_int (orientation b)))] else [])
     @ (if exifLength b > 0 then [(''exif'', Buffer (exif b) (exifLength b))] else [])
     @ (if iccLength b > 0 then [(''icc'', Buffer (icc b) (iccLength b))] else [])"

text \<open>
  The pair of callback arguments for a baton: the error made from the error string and
  \<open>null\<close>, or \<open>null\<close> and the metadata record of the baton.
\<close>

definition completion_argv_ok :: "'inp MetadataBaton \<Rightarrow> v8_value list \<Rightarrow> bool" where
  "completion_argv_ok b argv =
     (if err b \<noteq> [] then argv = [Error (c_str (err b)), Null]
      else argv = [Null, Object (metadata_record b)])"


text \<open>
  \<open>happens_before a b cs\<close>: call \<open>a\<close> occurs in \<open>cs\<close> before the first occurrence of
  call \<open>b\<close>, and \<open>b\<close> occurs.
\<close>

fun happens_before :: "call \<Rightarrow> call \<Rightarrow> call list \<Rightarrow> bool" where
  "happens_before a b [] = False"
| "happens_before a b (c # cs) =
     (if c = b then False else if c = a then b \<in> set cs else happens_before a b cs)"

subsection \<open>Metadata blobs and their copies\<close>

text \<open>
  The bytes of a metadata field that is a blob: \<open>get_typeof\<close> answers \<open>VIPS_TYPE_BLOB\<close>
  exactly for these fields, and \<open>get_blob\<close> returns these bytes.
\<close>

definition blob_field :: "VImage \<Rightarrow> string \<Rightarrow> byte list option" where
  "blob_field img name = (case meta img name of Some (VipsBlob bs) \<Rightarrow> Some bs | _ \<Rightarrow> None)"

text \<open>
  \<open>fresh_copy w w' p n bs\<close>: in the state \<open>w'\<close> the \<open>n\<close> bytes at \<open>p\<close> are the bytes \<open>bs\<close>,
  and \<open>n\<close> is their number; when there is at least one byte, the block at \<open>p\<close> did not
  exist in the earlier state \<open>w\<close> and holds exactly \<open>bs\<close>; when there is none, no block
  was made and \<open>p\<close> is \<open>NULL\<close>.
\<close>

definition fresh_copy :: "world \<Rightarrow> world \<Rightarrow> addr \<Rightarrow> nat \<Rightarrow> byte list \<Rightarrow> bool" where
  "fresh_copy w w' p n bs =
     (n = length bs \<and> load w' p n = Some bs \<and>
      (if bs = [] then p = NULL else cells w p = None \<and> cells w' p = Some bs))"

text \<open>
  \<open>result_buffer_is w obj key bs\<close>: the metadata object \<open>obj\<close> has under \<open>key\<close> a buffer
  whose bytes in the state \<open>w\<close> are \<open>bs\<close>, or, for no bytes, has no such field.
\<close>

definition result_buffer_is :: "world \<Rightarrow> (string \<times> v8_value) list \<Rightarrow> string \<Rightarrow> byte list \<Rightarrow> bool" where
  "result_buffer_is w obj key bs =
     (if bs = [] then map_of obj key = None
      else \<exists>p. map_of obj key = Some (Buffer p (length bs)) \<and> load w p (length bs) = Some bs)"

subsection \<open>Example inputs\<close>

text \<open>
  A concrete image, decode engine, baton and process state on which the theorems below
  are instantiated. The engine is given the result its \<open>OpenInput\<close> returns.
\<close>

definition example_image :: VImage where
  "example_image =
     \<lparr>VImage.width = 640, VImage.height = 480, vips_interpretation = 22, bands = 3,
      meta = [VIPS_META_EXIF_NAME \<mapsto> VipsBlob [1, 2, 3]]\<rparr>"

definition example_common :: "string + VImage \<times> nat ImageType \<Rightarrow> (string, nat) common" where
  "example_common r =
     \<lparr>AttrAs = (\<lambda>v k. case v of
                 Object kv \<Rightarrow> (case map_of kv k of Some x \<Rightarrow> x | None \<Rightarrow> Undefined)
               | _ \<Rightarrow> Undefined),
      CreateInputDescriptor = (\<lambda>v bufs. case v of
                 Buffer a n \<Rightarrow> (''buffer'', bufs @ [v])
               | String path \<Rightarrow> (path, bufs)
               | _ \<Rightarrow> ([], bufs)),
      OpenInput = (\<lambda>inp access. r),
      ImageTypeId = (\<lambda>ty. case ty of UNKNOWN \<Rightarrow> ''unknown'' | Recognised n \<Rightarrow> ''jpeg''),
      vips_enum_nick = (\<lambda>i. ''srgb''),
      HasDensity = (\<lambda>img. True),
      GetDensity = (\<lambda>img. 72),
      HasProfile = (\<lambda>img. False),
      HasAlpha = (\<lambda>img. False),
      ExifOrientation = (\<lambda>img. 6)\<rparr>"

definition example_baton :: "string MetadataBaton" where
  "example_baton =
     \<lparr>input = [], format = [], width = 0, height = 0, space = [], channels = 0, density = 0,
      hasProfile = False, hasAlpha = False, orientation = 0, exif = NULL, exifLength = 0,
      icc = NULL, iccLength = 0, err = []\<rparr>"

definition example_worker :: "string MetadataWorker" where
  "example_worker =
     \<lparr>callback = Function 7, baton = example_baton, buffersToPersist = [Buffer 4096 4]\<rparr>"

definition example_world :: world where
  "example_world = \<lparr>counterQueue = 0, cells = Map.empty, brk = 1, calls = []\<rparr>"

definition example_info :: "v8_value list" where
  "example_info = [Object [(''input'', Buffer 4096 4)], Function 7]"

section \<open>Auxiliary facts\<close>

lemma callback_argvs_append: "callback_argvs (xs @ ys) = callback_argvs xs @ callback_argvs ys"
  by (induction xs rule: callback_argvs.induct) simp_all

lemma foldl_Save:
  "foldl (\<lambda>(index, w) buffer. (index + 1, record_call (SaveToPersistent index buffer) w)) (i, w) bufs
   = (i + of_nat (length bufs),
      w\<lparr>calls := calls w @ map (\<lambda>k. SaveToPersistent (i + of_nat k) (bufs ! k)) [0..<length bufs]\<rparr>)"
proof (induction bufs arbitrary: i w)
  case Nil
  show ?case by simp
next
  case (Cons x xs)
  have e: "[0..<length (x # xs)] = 0 # map Suc [0..<length xs]"
    by (simp add: upt_conv_Cons map_Suc_upt del: upt_Suc)
  have "foldl (\<lambda>(index, w) buffer. (index + 1, record_call (SaveToPersistent index buffer) w)) (i, w) (x # xs)
      = foldl (\<lambda>(index, w) buffer. (index + 1, record_call (SaveToPersistent index buffer) w))
          (i + 1, record_call (SaveToPersistent i x) w) xs"
    by simp
  also have "\<dots> = (i + 1 + of_nat (length xs),
      (record_call (SaveToPersistent i x) w)\<lparr>calls := calls (record_call (SaveToPersistent i x) w) @
         map (\<lambda>k. SaveToPersistent (i + 1 + of_nat k) (xs ! k)) [0..<length xs]\<rparr>)"
    by (rule Cons.IH)
  finally show ?case
    unfolding e by (simp add: record_call_def o_def add.assoc del: upt_Suc)
qed

lemma foldl_Get:
  "foldl (\<lambda>(index, w) buffer. (index + 1, record_call (GetFromPersistent index) w)) (i, w) bufs
   = (i + of_nat (length bufs),
      w\<lparr>calls := calls w @ map (\<lambda>k. GetFromPersistent (i + of_nat k)) [0..<length bufs]\<rparr>)"
proof (induction bufs arbitrary: i w)
  case Nil
  show ?case by simp
next
  case (Cons x xs)
  have e: "[0..<length (x # xs)] = 0 # map Suc [0..<length xs]"
    by (simp add: upt_conv_Cons map_Suc_upt del: upt_Suc)
  have "foldl (\<lambda>(index, w) buffer. (index + 1, record_call (GetFromPersistent index) w)) (i, w) (x # xs)
      = foldl (\<lambda>(index, w) buffer. (index + 1, record_call (GetFromPersistent index) w))
          (i + 1, record_call (GetFromPersistent i) w) xs"
    by simp
  also have "\<dots> = (i + 1 + of_nat (length xs),
      (record_call (GetFromPersistent i) w)\<lparr>calls := calls (record_call (GetFromPersistent i) w) @
         map (\<lambda>k. GetFromPersistent (i + 1 + of_nat k)) [0..<length xs]\<rparr>)"
    by (rule Cons.IH)
  finally show ?case
    unfolding e by (simp add: record_call_def o_def add.assoc del: upt_Suc)
qed

lemma Execute_calls:
  "calls (snd (Execute env wk w)) =
     calls w @ [g_atomic_int_dec_and_test, vips_error_clear, vips_thread_shutdown]"
  by (simp add: Execute_def Let_def atomic_int_dec_and_test_def record_call_def g_malloc_def memcpy_def
      split: sum.splits prod.splits option.splits)

lemma Execute_counter:
  "counterQueue (snd (Execute env wk w)) = counterQueue w - 1"
  by (simp add: Execute_def Let_def atomic_int_dec_and_test_def record_call_def g_malloc_def memcpy_def
      split: sum.splits prod.splits option.splits)

lemma Execute_worker:
  "callback (fst (Execute env wk w)) = callback wk \<and>
   buffersToPersist (fst (Execute env wk w)) = buffersToPersist wk"
  by (simp add: Execute_def Let_def split: sum.splits prod.splits option.splits)

lemma Execute_Inl:
  "OpenInput env (input (baton wk)) VIPS_ACCESS_SEQUENTIAL = Inl what \<Longrightarrow>
   Execute env wk w =
     (wk\<lparr>baton := (baton wk)\<lparr>err := err (baton wk) @ c_str what\<rparr>\<rparr>,
      record_call vips_thread_shutdown (record_call vips_error_clear (atomic_int_dec_and_test w)))"
  by (simp add: Execute_def Let_def)

lemma Execute_UNKNOWN:
  "OpenInput env (input (baton wk)) VIPS_ACCESS_SEQUENTIAL = Inr (img, UNKNOWN) \<Longrightarrow>
   Execute env wk w =
     (wk\<lparr>baton := baton wk\<rparr>,
      record_call vips_thread_shutdown (record_call vips_error_clear (atomic_int_dec_and_test w)))"
  by (simp add: Execute_def Let_def)

lemma pins_append: "pins (xs @ ys) = pins xs @ pins ys"
  by (induction xs rule: pins.induct) simp_all

lemma unpins_append: "unpins (xs @ ys) = unpins xs @ unpins ys"
  by (induction xs rule: unpins.induct) simp_all

lemma pins_Save: "pins (map (\<lambda>k. SaveToPersistent (f k) (g k)) ks) = map (\<lambda>k. (f k, g k)) ks"
  by (induction ks) simp_all

lemma pins_Get: "pins (map (\<lambda>k. GetFromPersistent (f k)) ks) = []"
  by (induction ks) simp_all

lemma unpins_Save: "unpins (map (\<lambda>k. SaveToPersistent (f k) (g k)) ks) = []"
  by (induction ks) simp_all

lemma unpins_Get: "unpins (map (\<lambda>k. GetFromPersistent (f k)) ks) = map f ks"
  by (induction ks) simp_all

lemma callback_argvs_Save: "callback_argvs (map (\<lambda>k. SaveToPersistent (f k) (g k)) ks) = []"
  by (induction ks) simp_all

lemma callback_argvs_Get: "callback_argvs (map (\<lambda>k. GetFromPersistent (f k)) ks) = []"
  by (induction ks) simp_all

lemma MetadataWorker_ctor_eq:
  "MetadataWorker_ctor cb b bufs w =
     (\<lparr>callback = cb, baton = b, buffersToPersist = bufs\<rparr>,
      w\<lparr>calls := calls w @ map (\<lambda>k. SaveToPersistent (of_nat k) (bufs ! k)) [0..<length bufs]\<rparr>)"
  unfolding MetadataWorker_ctor_def foldl_Save by simp

lemma metadata_eq:
  "metadata env info b_new w =
     (let (inp, bufs) = CreateInputDescriptor env (AttrAs env (arg info 0) ''input'') []
      in (\<lparr>callback = arg info 1, baton = b_new\<lparr>input := inp\<rparr>, buffersToPersist = bufs\<rparr>,
          w\<lparr>counterQueue := counterQueue w + 1,
            calls := calls w @ map (\<lambda>k. SaveToPersistent (of_nat k) (bufs ! k)) [0..<length bufs]
                       @ [AsyncQueueWorker, g_atomic_int_inc]\<rparr>))"
  by (simp add: metadata_def MetadataWorker_ctor_eq Let_def atomic_int_inc_def record_call_def
      split: prod.splits)

lemma HandleOKCallback_calls:
  "\<exists>argv. calls (HandleOKCallback wk w) =
      calls w @ map (\<lambda>k. GetFromPersistent (of_nat k)) [0..<length (buffersToPersist wk)]
        @ [delete_input, delete_baton, callback_Call (callback wk) argv]
    \<and> completion_argv_ok (baton wk) argv"
  unfolding HandleOKCallback_def Let_def foldl_Get
  by (simp add: record_call_def completion_argv_ok_def metadata_record_def Nan_Set_def)

lemma HandleOKCallback_rest:
  "counterQueue (HandleOKCallback wk w) = counterQueue w \<and>
   cells (HandleOKCallback wk w) = cells w \<and> brk (HandleOKCallback wk w) = brk w"
  unfolding HandleOKCallback_def Let_def foldl_Get
  by (simp add: record_call_def)

lemma task_calls_append: "calls w' = calls w @ cs \<Longrightarrow> task_calls w w' = cs"
  by (simp add: task_calls_def)

lemma run_task_unfold:
  "run_task env info b_new w =
     HandleOKCallback (fst (Execute env (fst (metadata env info b_new w)) (snd (metadata env info b_new w))))
       (snd (Execute env (fst (metadata env info b_new w)) (snd (metadata env info b_new w))))"
  by (simp add: run_task_def split: prod.splits)

lemma metadata_parts:
  assumes "CreateInputDescriptor env (AttrAs env (arg info 0) ''input'') [] = (inp, bufs)"
  shows "fst (metadata env info b_new w) =
           \<lparr>callback = arg info 1, baton = b_new\<lparr>input := inp\<rparr>, buffersToPersist = bufs\<rparr>"
    and "calls (snd (metadata env info b_new w)) =
           calls w @ map (\<lambda>k. SaveToPersistent (of_nat k) (bufs ! k)) [0..<length bufs]
             @ [AsyncQueueWorker, g_atomic_int_inc]"
    and "counterQueue (snd (metadata env info b_new w)) = counterQueue w + 1"
    and "cells (snd (metadata env info b_new w)) = cells w"
    and "brk (snd (metadata env info b_new w)) = brk w"
  using assms by (simp_all add: metadata_eq)

lemma run_task_calls:
  assumes "CreateInputDescriptor env (AttrAs env (arg info 0) ''input'') [] = (inp, bufs)"
  shows "\<exists>argv. calls (run_task env info b_new w) =
           calls w @ map (\<lambda>k. SaveToPersistent (of_nat k) (bufs ! k)) [0..<length bufs]
             @ [AsyncQueueWorker, g_atomic_int_inc,
                g_atomic_int_dec_and_test, vips_error_clear, vips_thread_shutdown]
             @ map (\<lambda>k. GetFromPersistent (of_nat k)) [0..<length bufs]
             @ [delete_input, delete_baton, callback_Call (arg info 1) argv]
         \<and> completion_argv_ok
             (baton (fst (Execute env (fst (metadata env info b_new w)) (snd (metadata env info b_new w)))))
             argv"
proof -
  let ?m = "metadata env info b_new w"
  let ?e = "Execute env (fst ?m) (snd ?m)"
  obtain argv where a:
    "calls (HandleOKCallback (fst ?e) (snd ?e)) =
       calls (snd ?e) @ map (\<lambda>k. GetFromPersistent (of_nat k)) [0..<length (buffersToPersist (fst ?e))]
         @ [delete_input, delete_baton, callback_Call (callback (fst ?e)) argv]"
    and ok: "completion_argv_ok (baton (fst ?e)) argv"
    using HandleOKCallback_calls [of "fst ?e" "snd ?e"] by blast
  have "calls (run_task env info b_new w) =
           calls w @ map (\<lambda>k. SaveToPersistent (of_nat k) (bufs ! k)) [0..<length bufs]
             @ [AsyncQueueWorker, g_atomic_int_inc,
                g_atomic_int_dec_and_test, vips_error_clear, vips_thread_shutdown]
             @ map (\<lambda>k. GetFromPersistent (of_nat k)) [0..<length bufs]
             @ [delete_input, delete_baton, callback_Call (arg info 1) argv]"
    unfolding run_task_unfold a
    by (simp add: Execute_calls Execute_worker metadata_parts [OF assms])
  with ok show ?thesis by blast
qed

lemma run_task_counter: "counterQueue (run_task env info b_new w) = counterQueue w"
  by (simp add: run_task_unfold HandleOKCallback_rest Execute_counter metadata_eq split: prod.splits)

lemma c_str_idem: "c_str (c_str s) = c_str s"
proof -
  have "\<forall>c \<in> set (takeWhile (\<lambda>c. c \<noteq> CHR 0x00) s). c \<noteq> CHR 0x00"
    by (auto dest: set_takeWhileD)
  then show ?thesis
    unfolding c_str_def by simp
qed

lemma c_str_Nil: "c_str [] = []"
  by (simp add: c_str_def)

lemma Execute_err:
  "err (baton (fst (Execute env wk w))) =
     (case OpenInput env (input (baton wk)) VIPS_ACCESS_SEQUENTIAL of
        Inl what \<Rightarrow> err (baton wk) @ c_str what
      | Inr r \<Rightarrow> err (baton wk))"
  by (simp add: Execute_def Let_def g_malloc_def split: sum.splits prod.splits option.splits)

lemma metadata_baton_err: "err (baton (fst (metadata env info b_new w))) = err b_new"
  by (simp add: metadata_eq split: prod.splits)

lemma task_err_c_str:
  assumes "MetadataBaton_new b_new"
  shows "c_str (err (baton (fst (Execute env (fst (metadata env info b_new w)) w')))) =
         err (baton (fst (Execute env (fst (metadata env info b_new w)) w')))"
  using assms
  by (simp add: Execute_err metadata_baton_err MetadataBaton_new_def c_str_idem c_str_Nil
      split: sum.splits)

lemma distinct_word_indices:
  assumes "n \<le> 2 ^ 32"
  shows "distinct (map (of_nat :: nat \<Rightarrow> 32 word) [0..<n])"
proof -
  have "inj_on (of_nat :: nat \<Rightarrow> 32 word) (set [0..<n])"
  proof (rule inj_onI)
    fix a b :: nat
    assume a: "a \<in> set [0..<n]" and b: "b \<in> set [0..<n]"
      and eq: "(of_nat a :: 32 word) = of_nat b"
    from a assms have "a < 2 ^ LENGTH(32)" by simp
    then have ua: "unat (of_nat a :: 32 word) = a"
      by (rule of_nat_inverse [OF refl])
    from b assms have "b < 2 ^ LENGTH(32)" by simp
    then have ub: "unat (of_nat b :: 32 word) = b"
      by (rule of_nat_inverse [OF refl])
    from eq ua ub show "a = b" by metis
  qed
  then show ?thesis by (simp add: distinct_map)
qed

lemma happens_before_after_pins:
  "happens_before a b (map (\<lambda>k. SaveToPersistent (f k) (g k)) ks @ cs) = happens_before a b cs"
  if "\<And>i v. a \<noteq> SaveToPersistent i v" "\<And>i v. b \<noteq> SaveToPersistent i v"
  using that by (induction ks) auto

lemma count_list_pins:
  "count_list (map (\<lambda>k. SaveToPersistent (f k) (g k)) ks) c = 0"
  if "\<And>i v. c \<noteq> SaveToPersistent i v"
  using that by (induction ks) auto

lemma count_list_unpins:
  "count_list (map (\<lambda>k. GetFromPersistent (f k)) ks) c = 0"
  if "\<And>i. c \<noteq> GetFromPersistent i"
  using that by (induction ks) auto

lemma Execute_Recognised:
  assumes "OpenInput env (input (baton wk)) VIPS_ACCESS_SEQUENTIAL = Inr (img, ty)" "ty \<noteq> UNKNOWN"
  shows "format (baton (fst (Execute env wk w))) = ImageTypeId env ty"
    and "MetadataBaton.width (baton (fst (Execute env wk w))) = VImage.width img"
    and "MetadataBaton.height (baton (fst (Execute env wk w))) = VImage.height img"
    and "space (baton (fst (Execute env wk w))) = c_str (vips_enum_nick env (vips_interpretation img))"
    and "channels (baton (fst (Execute env wk w))) = bands img"
    and "density (baton (fst (Execute env wk w))) =
           (if HasDensity env img then GetDensity env img else density (baton wk))"
    and "hasProfile (baton (fst (Execute env wk w))) = HasProfile env img"
    and "hasAlpha (baton (fst (Execute env wk w))) = HasAlpha env img"
    and "orientation (baton (fst (Execute env wk w))) = ExifOrientation env img"
    and "err (baton (fst (Execute env wk w))) = err (baton wk)"
    and "input (baton (fst (Execute env wk w))) = input (baton wk)"
  using assms
  by (simp_all add: Execute_def Let_def split: prod.splits)

lemma task_outcome:
  assumes "MetadataBaton_new b_new"
  shows "\<exists>argv. callback_argvs (task_calls w (run_task env info b_new w)) = [argv]
           \<and> (case OpenInput env (input (baton (fst (metadata env info b_new w)))) VIPS_ACCESS_SEQUENTIAL of
                 Inl what \<Rightarrow> if c_str what \<noteq> [] then argv = [Error (c_str what), Null]
                             else \<exists>obj. argv = [Null, Object obj]
               | Inr r \<Rightarrow> \<exists>obj. argv = [Null, Object obj])"
proof -
  let ?m = "metadata env info b_new w"
  let ?b = "baton (fst (Execute env (fst ?m) (snd ?m)))"
  obtain inp bufs where c: "CreateInputDescriptor env (AttrAs env (arg info 0) ''input'') [] = (inp, bufs)"
    by (cases "CreateInputDescriptor env (AttrAs env (arg info 0) ''input'') []") blast
  obtain argv where
    calls: "calls (run_task env info b_new w) =
           calls w @ map (\<lambda>k. SaveToPersistent (of_nat k) (bufs ! k)) [0..<length bufs]
             @ [AsyncQueueWorker, g_atomic_int_inc,
                g_atomic_int_dec_and_test, vips_error_clear, vips_thread_shutdown]
             @ map (\<lambda>k. GetFromPersistent (of_nat k)) [0..<length bufs]
             @ [delete_input, delete_baton, callback_Call (arg info 1) argv]"
    and ok: "completion_argv_ok ?b argv"
    using run_task_calls [OF c, of b_new w] by blast
  have "task_calls w (run_task env info b_new w) =
           map (\<lambda>k. SaveToPersistent (of_nat k) (bufs ! k)) [0..<length bufs]
             @ [AsyncQueueWorker, g_atomic_int_inc,
                g_atomic_int_dec_and_test, vips_error_clear, vips_thread_shutdown]
             @ map (\<lambda>k. GetFromPersistent (of_nat k)) [0..<length bufs]
             @ [delete_input, delete_baton, callback_Call (arg info 1) argv]"
    using calls by (rule task_calls_append)
  then have one: "callback_argvs (task_calls w (run_task env info b_new w)) = [argv]"
    by (simp add: callback_argvs_append callback_argvs_Save callback_argvs_Get)
  have e: "err ?b =
     (case OpenInput env (input (baton (fst ?m))) VIPS_ACCESS_SEQUENTIAL of
        Inl what \<Rightarrow> c_str what | Inr r \<Rightarrow> [])"
    using assms by (simp add: Execute_err metadata_baton_err MetadataBaton_new_def split: sum.splits)
  have "case OpenInput env (input (baton (fst ?m))) VIPS_ACCESS_SEQUENTIAL of
                 Inl what \<Rightarrow> if c_str what \<noteq> [] then argv = [Error (c_str what), Null]
                             else \<exists>obj. argv = [Null, Object obj]
               | Inr r \<Rightarrow> \<exists>obj. argv = [Null, Object obj]"
    using ok unfolding completion_argv_ok_def e
    by (simp add: c_str_idem split: sum.splits)
  with one show ?thesis by blast
qed

lemma HandleOKCallback_success:
  assumes "err (baton wk) = []"
  shows "calls (HandleOKCallback wk w) =
      calls w @ map (\<lambda>k. GetFromPersistent (of_nat k)) [0..<length (buffersToPersist wk)]
        @ [delete_input, delete_baton,
           callback_Call (callback wk)
             [Null, Object
               ([(''format'', String (format (baton wk))),
                 (''width'', Uint32 (word_of_int (MetadataBaton.width (baton wk)))),
                 (''height'', Uint32 (word_of_int (MetadataBaton.height (baton wk)))),
                 (''space'', String (space (baton wk))),
                 (''channels'', Uint32 (word_of_int (channels (baton wk))))]
                @ (if density (baton wk) > 0
                   then [(''density'', Uint32 (word_of_int (density (baton wk))))] else [])
                @ [(''hasProfile'', Boolean (hasProfile (baton wk))),
                   (''hasAlpha'', Boolean (hasAlpha (baton wk)))]
                @ (if orientation (baton wk) > 0
                   then [(''orientation'', Uint32 (word_of_int (orientation (baton wk))))] else [])
                @ (if exifLength (baton wk) > 0
                   then [(''exif'', Buffer (exif (baton wk)) (exifLength (baton wk)))] else [])
                @ (if iccLength (baton wk) > 0
                   then [(''icc'', Buffer (icc (baton wk)) (iccLength (baton wk)))] else []))]]"
  unfolding HandleOKCallback_def Let_def foldl_Get
  using assms by (simp add: record_call_def Nan_Set_def)

lemma Execute_density:
  "density (baton (fst (Execute env wk w))) =
     (case OpenInput env (input (baton wk)) VIPS_ACCESS_SEQUENTIAL of
        Inl what \<Rightarrow> density (baton wk)
      | Inr (img, ty) \<Rightarrow>
          if ty \<noteq> UNKNOWN \<and> HasDensity env img then GetDensity env img else density (baton wk))"
proof (cases "OpenInput env (input (baton wk)) VIPS_ACCESS_SEQUENTIAL")
  case (Inl what)
  then show ?thesis by (simp add: Execute_Inl)
next
  case (Inr r)
  obtain img ty where r: "r = (img, ty)" by (cases r)
  show ?thesis
  proof (cases "ty = UNKNOWN")
    case True
    with Inr r show ?thesis by (simp add: Execute_UNKNOWN)
  next
    case False
    from Inr r have o: "OpenInput env (input (baton wk)) VIPS_ACCESS_SEQUENTIAL = Inr (img, ty)"
      by simp
    show ?thesis
      using False by (simp add: o Execute_Recognised(6) [OF o False])
  qed
qed

lemma blob_field_typeof:
  "(get_typeof img name = VIPS_TYPE_BLOB) = (blob_field img name \<noteq> None)"
  by (simp add: get_typeof_def blob_field_def split: option.splits GValue.splits)

lemma blob_field_get_blob: "blob_field img name = Some bs \<Longrightarrow> get_blob img name = bs"
  by (simp add: get_blob_def blob_field_def split: option.splits GValue.splits)

lemma Execute_blobs:
  assumes h: "heap_ok w"
    and o: "OpenInput env (input (baton wk)) VIPS_ACCESS_SEQUENTIAL = Inr (img, ty)"
    and u: "ty \<noteq> UNKNOWN"
    and x: "blob_field img VIPS_META_EXIF_NAME = ex"
    and i: "blob_field img VIPS_META_ICC_NAME = ic"
  shows "exifLength (baton (fst (Execute env wk w))) =
           (case ex of Some bs \<Rightarrow> length bs | None \<Rightarrow> exifLength (baton wk))"
    and "exif (baton (fst (Execute env wk w))) =
           (case ex of Some bs \<Rightarrow> if bs = [] then NULL else brk w | None \<Rightarrow> exif (baton wk))"
    and "iccLength (baton (fst (Execute env wk w))) =
           (case ic of Some bs \<Rightarrow> length bs | None \<Rightarrow> iccLength (baton wk))"
    and "icc (baton (fst (Execute env wk w))) =
           (case ic of
              Some bs \<Rightarrow> if bs = [] then NULL
                         else (case ex of Some bs' \<Rightarrow> if bs' = [] then brk w else Suc (brk w) | None \<Rightarrow> brk w)
            | None \<Rightarrow> icc (baton wk))"
    and "cells (snd (Execute env wk w)) =
           (cells w)
             ++ (case ex of Some bs \<Rightarrow> if bs = [] then Map.empty else [brk w \<mapsto> bs] | None \<Rightarrow> Map.empty)
             ++ (case ic of
                   Some bs \<Rightarrow> if bs = [] then Map.empty
                              else [(case ex of Some bs' \<Rightarrow> if bs' = [] then brk w else Suc (brk w)
                                     | None \<Rightarrow> brk w) \<mapsto> bs]
                 | None \<Rightarrow> Map.empty)"
  using h o u x i
  by (auto simp add: Execute_def Let_def blob_field_typeof blob_field_get_blob g_malloc_def memcpy_def
      atomic_int_dec_and_test_def record_call_def heap_ok_def NULL_def
      split: prod.splits option.splits)

lemma Execute_heap_ok:
  assumes "heap_ok w"
  shows "heap_ok (snd (Execute env wk w))"
  using assms
  by (auto simp add: Execute_def Let_def blob_field_typeof g_malloc_def memcpy_def
      atomic_int_dec_and_test_def record_call_def heap_ok_def NULL_def
      split: sum.splits prod.splits option.splits)

lemma HandleOKCallback_blob_fields:
  assumes "err (baton wk) = []"
  shows "\<exists>obj. callback_argvs (task_calls w (HandleOKCallback wk w)) = [[Null, Object obj]]
     \<and> map_of obj ''exif'' =
           (if exifLength (baton wk) > 0 then Some (Buffer (exif (baton wk)) (exifLength (baton wk))) else None)
     \<and> map_of obj ''icc'' =
           (if iccLength (baton wk) > 0 then Some (Buffer (icc (baton wk)) (iccLength (baton wk))) else None)"
proof -
  let ?obj = "[(''format'', String (format (baton wk))),
                 (''width'', Uint32 (word_of_int (MetadataBaton.width (baton wk)))),
                 (''height'', Uint32 (word_of_int (MetadataBaton.height (baton wk)))),
                 (''space'', String (space (baton wk))),
                 (''channels'', Uint32 (word_of_int (channels (baton wk))))]
                @ (if density (baton wk) > 0
                   then [(''density'', Uint32 (word_of_int (density (baton wk))))] else [])
                @ [(''hasProfile'', Boolean (hasProfile (baton wk))),
                   (''hasAlpha'', Boolean (hasAlpha (baton wk)))]
                @ (if orientation (baton wk) > 0
                   then [(''orientation'', Uint32 (word_of_int (orientation (baton wk))))] else [])
                @ (if exifLength (baton wk) > 0
                   then [(''exif'', Buffer (exif (baton wk)) (exifLength (baton wk)))] else [])
                @ (if iccLength (baton wk) > 0
                   then [(''icc'', Buffer (icc (baton wk)) (iccLength (baton wk)))] else [])"
  have "task_calls w (HandleOKCallback wk w) =
      map (\<lambda>k. GetFromPersistent (of_nat k)) [0..<length (buffersToPersist wk)]
        @ [delete_input, delete_baton, callback_Call (callback wk) [Null, Object ?obj]]"
    by (rule task_calls_append) (rule HandleOKCallback_success [OF assms])
  then have c: "callback_argvs (task_calls w (HandleOKCallback wk w)) = [[Null, Object ?obj]]"
    by (simp add: callback_argvs_append callback_argvs_Get)
  have x: "map_of ?obj ''exif'' =
           (if exifLength (baton wk) > 0 then Some (Buffer (exif (baton wk)) (exifLength (baton wk))) else None)"
    by simp
  have i: "map_of ?obj ''icc'' =
           (if iccLength (baton wk) > 0 then Some (Buffer (icc (baton wk)) (iccLength (baton wk))) else None)"
    by simp
  from c x i show ?thesis by blast
qed

lemma load_HandleOKCallback: "load (HandleOKCallback wk w) p n = load w p n"
  by (simp add: load_def HandleOKCallback_rest)

section \<open>Claims\<close>

subsection \<open>C1: an image opened with unknown format is an error\<close>



subsection \<open>C2: the callback receives either the error or the result\<close>

text \<open>
  C2. Over a whole task started on a newly created baton, the completion callback is
  called once, with two arguments. When the baton's error field is non-empty after
  execution, they are an \<open>Error\<close> carrying exactly the stored message and \<open>null\<close>; no
  metadata object is built. Otherwise they are \<open>null\<close> and the metadata record of the
  baton as execution left it. The first argument is \<open>null\<close> exactly when the second is
  not. For any baton at all, \<open>HandleOKCallback\<close> chooses between the two by the emptiness
  of the error field and, when it is empty, passes the metadata record of that baton.
\<close>

theorem callback_pair_is_exclusive:
  assumes "MetadataBaton_new b_new"
  shows "\<exists>argv.
           callback_argvs (task_calls w (run_task env info b_new w)) = [argv]
         \<and> (if err (baton (fst (Execute env (fst (metadata env info b_new w)) (snd (metadata env info b_new w))))) \<noteq> []
            then argv = [Error (err (baton (fst (Execute env (fst (metadata env info b_new w))
                                                     (snd (metadata env info b_new w)))))), Null]
            else argv = [Null, Object (metadata_record
                                         (baton (fst (Execute env (fst (metadata env info b_new w))
                                                        (snd (metadata env info b_new w))))))])
         \<and> (argv ! 0 = Null) = (argv ! 1 \<noteq> Null)
         \<and> (\<exists>argv'. callback_argvs (task_calls w' (HandleOKCallback wk w')) = [argv']
                    \<and> completion_argv_ok (baton wk) argv')"
proof -
  let ?b = "baton (fst (Execute env (fst (metadata env info b_new w)) (snd (metadata env info b_new w))))"
  obtain inp bufs where c: "CreateInputDescriptor env (AttrAs env (arg info 0) ''input'') [] = (inp, bufs)"
    by (cases "CreateInputDescriptor env (AttrAs env (arg info 0) ''input'') []") blast
  obtain argv where
    calls: "calls (run_task env info b_new w) =
           calls w @ map (\<lambda>k. SaveToPersistent (of_nat k) (bufs ! k)) [0..<length bufs]
             @ [AsyncQueueWorker, g_atomic_int_inc,
                g_atomic_int_dec_and_test, vips_error_clear, vips_thread_shutdown]
             @ map (\<lambda>k. GetFromPersistent (of_nat k)) [0..<length bufs]
             @ [delete_input, delete_baton, callback_Call (arg info 1) argv]"
    and ok: "completion_argv_ok ?b argv"
    using run_task_calls [OF c, of b_new w] by blast
  have "task_calls w (run_task env info b_new w) =
           map (\<lambda>k. SaveToPersistent (of_nat k) (bufs ! k)) [0..<length bufs]
             @ [AsyncQueueWorker, g_atomic_int_inc,
                g_atomic_int_dec_and_test, vips_error_clear, vips_thread_shutdown]
             @ map (\<lambda>k. GetFromPersistent (of_nat k)) [0..<length bufs]
             @ [delete_input, delete_baton, callback_Call (arg info 1) argv]"
    using calls by (rule task_calls_append)
  then have one: "callback_argvs (task_calls w (run_task env info b_new w)) = [argv]"
    by (simp add: callback_argvs_append callback_argvs_Save callback_argvs_Get)
  have msg: "c_str (err ?b) = err ?b"
    using assms by (rule task_err_c_str)
  have pair: "if err ?b \<noteq> [] then argv = [Error (err ?b), Null]
              else argv = [Null, Object (metadata_record ?b)]"
    using ok msg by (simp add: completion_argv_ok_def)
  have excl: "(argv ! 0 = Null) = (argv ! 1 \<noteq> Null)"
    using pair by (auto split: if_splits)
  obtain argv' where
    h: "calls (HandleOKCallback wk w') =
       calls w' @ map (\<lambda>k. GetFromPersistent (of_nat k)) [0..<length (buffersToPersist wk)]
         @ [delete_input, delete_baton, callback_Call (callback wk) argv']"
    and ok': "completion_argv_ok (baton wk) argv'"
    using HandleOKCallback_calls [of wk w'] by blast
  have "task_calls w' (HandleOKCallback wk w') =
       map (\<lambda>k. GetFromPersistent (of_nat k)) [0..<length (buffersToPersist wk)]
         @ [delete_input, delete_baton, callback_Call (callback wk) argv']"
    using h by (rule task_calls_append)
  then have "callback_argvs (task_calls w' (HandleOKCallback wk w')) = [argv']"
    by (simp add: callback_argvs_append callback_argvs_Get)
  with ok' have disp: "\<exists>argv'. callback_argvs (task_calls w' (HandleOKCallback wk w')) = [argv']
                    \<and> completion_argv_ok (baton wk) argv'"
    by blast
  from one pair excl disp show ?thesis by blast
qed

theorem callback_pair_is_exclusive_witness:
  "MetadataBaton_new example_baton
   \<and> callback_argvs (task_calls example_world
         (run_task (example_common (Inl ''bad seek'')) example_info example_baton example_world))
       = [[Error ''bad seek'', Null]]
   \<and> callback_argvs (task_calls example_world
         (run_task (example_common (Inr (example_image, Recognised 0))) example_info example_baton example_world))
       = [[Null, Object [(''format'', String ''jpeg''), (''width'', Uint32 640), (''height'', Uint32 480),
                         (''space'', String ''srgb''), (''channels'', Uint32 3), (''density'', Uint32 72),
                         (''hasProfile'', Boolean False), (''hasAlpha'', Boolean False),
                         (''orientation'', Uint32 6), (''exif'', Buffer 1 3)]]]"
proof -
  have n: "MetadataBaton_new example_baton"
    by (simp add: MetadataBaton_new_def example_baton_def)
  have failure: "callback_argvs (task_calls example_world
         (run_task (example_common (Inl ''bad seek'')) example_info example_baton example_world))
       = [[Error ''bad seek'', Null]]"
  proof -
    let ?env = "example_common (Inl ''bad seek'')"
    let ?b = "baton (fst (Execute ?env (fst (metadata ?env example_info example_baton example_world))
                            (snd (metadata ?env example_info example_baton example_world))))"
    have e: "err ?b = ''bad seek''"
      by (simp add: Execute_err metadata_baton_err example_common_def example_baton_def c_str_def)
    obtain argv where
      "callback_argvs (task_calls example_world (run_task ?env example_info example_baton example_world)) = [argv]"
      and "if err ?b \<noteq> [] then argv = [Error (err ?b), Null]
           else argv = [Null, Object (metadata_record ?b)]"
      using callback_pair_is_exclusive [OF n, of example_world ?env example_info example_world example_worker]
      by blast
    with e show ?thesis by simp
  qed
  have success: "callback_argvs (task_calls example_world
         (run_task (example_common (Inr (example_image, Recognised 0))) example_info example_baton example_world))
       = [[Null, Object [(''format'', String ''jpeg''), (''width'', Uint32 640), (''height'', Uint32 480),
                         (''space'', String ''srgb''), (''channels'', Uint32 3), (''density'', Uint32 72),
                         (''hasProfile'', Boolean False), (''hasAlpha'', Boolean False),
                         (''orientation'', Uint32 6), (''exif'', Buffer 1 3)]]]"
  proof -
    let ?env = "example_common (Inr (example_image, Recognised 0))"
    let ?m = "metadata ?env example_info example_baton example_world"
    let ?b = "baton (fst (Execute ?env (fst ?m) (snd ?m)))"
    have c: "CreateInputDescriptor ?env (AttrAs ?env (arg example_info 0) ''input'') []
               = (''buffer'', [Buffer 4096 4])"
      by (simp add: example_common_def example_info_def arg_def)
    have o: "OpenInput ?env (input (baton (fst ?m))) VIPS_ACCESS_SEQUENTIAL = Inr (example_image, Recognised 0)"
      by (simp add: example_common_def)
    have u: "Recognised (0::nat) \<noteq> UNKNOWN"
      by simp
    have h: "heap_ok (snd ?m)"
      by (simp add: heap_ok_def metadata_parts(4,5) [OF c] example_world_def NULL_def)
    have k: "brk (snd ?m) = 1"
      by (simp add: metadata_parts(5) [OF c] example_world_def)
    have x: "blob_field example_image VIPS_META_EXIF_NAME = Some [1, 2, 3]"
      by (simp add: blob_field_def example_image_def)
    have i: "blob_field example_image VIPS_META_ICC_NAME = None"
      by (simp add: blob_field_def example_image_def VIPS_META_EXIF_NAME_def VIPS_META_ICC_NAME_def)
    have b0: "iccLength (baton (fst ?m)) = 0"
      by (simp add: metadata_parts(1) [OF c] example_baton_def)
    have f: "format ?b = ''jpeg''" "MetadataBaton.width ?b = 640" "MetadataBaton.height ?b = 480"
      "space ?b = ''srgb''" "channels ?b = 3" "density ?b = 72" "hasProfile ?b = False"
      "hasAlpha ?b = False" "orientation ?b = 6" "err ?b = []"
      unfolding Execute_Recognised [OF o u] metadata_baton_err
      by (simp_all add: example_common_def example_image_def example_baton_def c_str_def)
    have g: "exif ?b = 1" "exifLength ?b = 3" "iccLength ?b = 0"
      unfolding Execute_blobs [OF h o u x i] k b0
      by simp_all
    have r: "metadata_record ?b =
        [(''format'', String ''jpeg''), (''width'', Uint32 640), (''height'', Uint32 480),
         (''space'', String ''srgb''), (''channels'', Uint32 3), (''density'', Uint32 72),
         (''hasProfile'', Boolean False), (''hasAlpha'', Boolean False),
         (''orientation'', Uint32 6), (''exif'', Buffer 1 3)]"
      by (simp add: metadata_record_def f g)
    obtain argv where
      "callback_argvs (task_calls example_world (run_task ?env example_info example_baton example_world)) = [argv]"
      and "if err ?b \<noteq> [] then argv = [Error (err ?b), Null]
           else argv = [Null, Object (metadata_record ?b)]"
      using callback_pair_is_exclusive [OF n, of example_world ?env example_info example_world example_worker]
      by blast
    then show ?thesis
      by (simp add: f(10) r)
  qed
  from n failure success show ?thesis by blast
qed

subsection \<open>C3: a failure of header-open is caught and recorded\<close>

text \<open>
  C3. When \<open>OpenInput\<close> raises, \<open>Execute\<close> returns normally with the worker and the
  process state: the message of the exception, read as a C string, has been appended to
  the baton's error field, no other field of the baton has been written (format, width,
  height, space, channels, density, hasProfile, hasAlpha, orientation, exif and icc are
  as before), nothing has been allocated or copied on the heap, and the only calls
  made are the counter's decrement and the two cleanup calls.
\<close>

theorem Execute_open_failure:
  assumes "OpenInput env (input (baton wk)) VIPS_ACCESS_SEQUENTIAL = Inl what"
  shows "baton (fst (Execute env wk w)) = (baton wk)\<lparr>err := err (baton wk) @ c_str what\<rparr>
       \<and> cells (snd (Execute env wk w)) = cells w
       \<and> brk (snd (Execute env wk w)) = brk w
       \<and> task_calls w (snd (Execute env wk w)) =
           [g_atomic_int_dec_and_test, vips_error_clear, vips_thread_shutdown]"
  by (simp add: Execute_Inl [OF assms] record_call_def atomic_int_dec_and_test_def task_calls_def)

theorem Execute_open_failure_witness:
  "OpenInput (example_common (Inl ''bad seek'')) (input (baton example_worker)) VIPS_ACCESS_SEQUENTIAL
     = Inl ''bad seek''
   \<and> baton (fst (Execute (example_common (Inl ''bad seek'')) example_worker example_world))
     = example_baton\<lparr>err := ''bad seek''\<rparr>
   \<and> cells (snd (Execute (example_common (Inl ''bad seek'')) example_worker example_world)) = Map.empty
   \<and> task_calls example_world (snd (Execute (example_common (Inl ''bad seek'')) example_worker example_world))
     = [g_atomic_int_dec_and_test, vips_error_clear, vips_thread_shutdown]"
  using Execute_open_failure [of "example_common (Inl ''bad seek'')" example_worker "''bad seek''" example_world]
  by (simp add: example_common_def example_worker_def example_baton_def example_world_def c_str_def)

subsection \<open>C4: fields of the metadata record\<close>

text \<open>
  C4. When the baton holds no error, the callback receives \<open>null\<close> and a metadata
  object. The object always has the fields format, width, height, space, channels,
  hasProfile and hasAlpha, with the baton's values; it has the field density exactly
  when the baton's density is above 0, orientation exactly when the baton's orientation
  is above 0, exif exactly when the captured exif length is above 0 and icc exactly when
  the captured icc length is above 0; and it has no other field. During execution the
  baton's density is written only when header-open returned an image of a recognised
  type for which the engine reports density metadata; otherwise it keeps its value,
  which is 0 for a newly created baton.
\<close>

theorem metadata_record_fields:
  assumes "err (baton wk) = []"
  shows "\<exists>obj. callback_argvs (task_calls w (HandleOKCallback wk w)) = [[Null, Object obj]]
     \<and> map_of obj ''format'' = Some (String (format (baton wk)))
     \<and> map_of obj ''width'' = Some (Uint32 (word_of_int (MetadataBaton.width (baton wk))))
     \<and> map_of obj ''height'' = Some (Uint32 (word_of_int (MetadataBaton.height (baton wk))))
     \<and> map_of obj ''space'' = Some (String (space (baton wk)))
     \<and> map_of obj ''channels'' = Some (Uint32 (word_of_int (channels (baton wk))))
     \<and> map_of obj ''hasProfile'' = Some (Boolean (hasProfile (baton wk)))
     \<and> map_of obj ''hasAlpha'' = Some (Boolean (hasAlpha (baton wk)))
     \<and> map_of obj ''density'' =
           (if density (baton wk) > 0 then Some (Uint32 (word_of_int (density (baton wk)))) else None)
     \<and> map_of obj ''orientation'' =
           (if orientation (baton wk) > 0 then Some (Uint32 (word_of_int (orientation (baton wk)))) else None)
     \<and> map_of obj ''exif'' =
           (if exifLength (baton wk) > 0 then Some (Buffer (exif (baton wk)) (exifLength (baton wk))) else None)
     \<and> map_of obj ''icc'' =
           (if iccLength (baton wk) > 0 then Some (Buffer (icc (baton wk)) (iccLength (baton wk))) else None)
     \<and> set (map fst obj) \<subseteq>
           {''format'', ''width'', ''height'', ''space'', ''channels'', ''density'',
            ''hasProfile'', ''hasAlpha'', ''orientation'', ''exif'', ''icc''}
     \<and> density (baton (fst (Execute env wk' w'))) =
           (case OpenInput env (input (baton wk')) VIPS_ACCESS_SEQUENTIAL of
              Inl what \<Rightarrow> density (baton wk')
            | Inr (img, ty) \<Rightarrow>
                if ty \<noteq> UNKNOWN \<and> HasDensity env img then GetDensity env img else density (baton wk'))
     \<and> (MetadataBaton_new (baton wk') \<longrightarrow>
          density (baton (fst (Execute env wk' w'))) =
           (case OpenInput env (input (baton wk')) VIPS_ACCESS_SEQUENTIAL of
              Inl what \<Rightarrow> 0
            | Inr (img, ty) \<Rightarrow> if ty \<noteq> UNKNOWN \<and> HasDensity env img then GetDensity env img else 0))"
proof -
  let ?obj = "[(''format'', String (format (baton wk))),
                 (''width'', Uint32 (word_of_int (MetadataBaton.width (baton wk)))),
                 (''height'', Uint32 (word_of_int (MetadataBaton.height (baton wk)))),
                 (''space'', String (space (baton wk))),
                 (''channels'', Uint32 (word_of_int (channels (baton wk))))]
                @ (if density (baton wk) > 0
                   then [(''density'', Uint32 (word_of_int (density (baton wk))))] else [])
                @ [(''hasProfile'', Boolean (hasProfile (baton wk))),
                   (''hasAlpha'', Boolean (hasAlpha (baton wk)))]
                @ (if orientation (baton wk) > 0
                   then [(''orientation'', Uint32 (word_of_int (orientation (baton wk))))] else [])
                @ (if exifLength (baton wk) > 0
                   then [(''exif'', Buffer (exif (baton wk)) (exifLength (baton wk)))] else [])
                @ (if iccLength (baton wk) > 0
                   then [(''icc'', Buffer (icc (baton wk)) (iccLength (baton wk)))] else [])"
  have "task_calls w (HandleOKCallback wk w) =
      map (\<lambda>k. GetFromPersistent (of_nat k)) [0..<length (buffersToPersist wk)]
        @ [delete_input, delete_baton, callback_Call (callback wk) [Null, Object ?obj]]"
    by (rule task_calls_append) (rule HandleOKCallback_success [OF assms])
  then have c: "callback_argvs (task_calls w (HandleOKCallback wk w)) = [[Null, Object ?obj]]"
    by (simp add: callback_argvs_append callback_argvs_Get)
  have f1: "map_of ?obj ''format'' = Some (String (format (baton wk)))" by simp
  have f2: "map_of ?obj ''width'' = Some (Uint32 (word_of_int (MetadataBaton.width (baton wk))))" by simp
  have f3: "map_of ?obj ''height'' = Some (Uint32 (word_of_int (MetadataBaton.height (baton wk))))" by simp
  have f4: "map_of ?obj ''space'' = Some (String (space (baton wk)))" by simp
  have f5: "map_of ?obj ''channels'' = Some (Uint32 (word_of_int (channels (baton wk))))" by simp
  have f6: "map_of ?obj ''hasProfile'' = Some (Boolean (hasProfile (baton wk)))" by simp
  have f7: "map_of ?obj ''hasAlpha'' = Some (Boolean (hasAlpha (baton wk)))" by simp
  have g1: "map_of ?obj ''density'' =
           (if density (baton wk) > 0 then Some (Uint32 (word_of_int (density (baton wk)))) else None)"
    by simp
  have g2: "map_of ?obj ''orientation'' =
           (if orientation (baton wk) > 0 then Some (Uint32 (word_of_int (orientation (baton wk)))) else None)"
    by simp
  have g3: "map_of ?obj ''exif'' =
           (if exifLength (baton wk) > 0 then Some (Buffer (exif (baton wk)) (exifLength (baton wk))) else None)"
    by simp
  have g4: "map_of ?obj ''icc'' =
           (if iccLength (baton wk) > 0 then Some (Buffer (icc (baton wk)) (iccLength (baton wk))) else None)"
    by simp
  have k: "set (map fst ?obj) \<subseteq>
           {''format'', ''width'', ''height'', ''space'', ''channels'', ''density'',
            ''hasProfile'', ''hasAlpha'', ''orientation'', ''exif'', ''icc''}"
    by auto
  have d: "density (baton (fst (Execute env wk' w'))) =
           (case OpenInput env (input (baton wk')) VIPS_ACCESS_SEQUENTIAL of
              Inl what \<Rightarrow> density (baton wk')
            | Inr (img, ty) \<Rightarrow>
                if ty \<noteq> UNKNOWN \<and> HasDensity env img then GetDensity env img else density (baton wk'))"
    by (rule Execute_density)
  have d0: "MetadataBaton_new (baton wk') \<longrightarrow>
          density (baton (fst (Execute env wk' w'))) =
           (case OpenInput env (input (baton wk')) VIPS_ACCESS_SEQUENTIAL of
              Inl what \<Rightarrow> 0
            | Inr (img, ty) \<Rightarrow> if ty \<noteq> UNKNOWN \<and> HasDensity env img then GetDensity env img else 0)"
    unfolding d by (simp add: MetadataBaton_new_def split: sum.splits)
  from c f1 f2 f3 f4 f5 f6 f7 g1 g2 g3 g4 k d d0 show ?thesis by blast
qed

theorem metadata_record_fields_witness:
  "err (baton (example_worker\<lparr>baton := example_baton\<lparr>density := 72, exif := 1, exifLength := 3\<rparr>\<rparr>)) = []
   \<and> (\<exists>obj. callback_argvs (task_calls example_world
          (HandleOKCallback (example_worker\<lparr>baton := example_baton\<lparr>density := 72, exif := 1, exifLength := 3\<rparr>\<rparr>)
             example_world)) = [[Null, Object obj]]
        \<and> map_of obj ''format'' = Some (String [])
        \<and> map_of obj ''density'' = Some (Uint32 72)
        \<and> map_of obj ''orientation'' = None
        \<and> map_of obj ''exif'' = Some (Buffer 1 3)
        \<and> map_of obj ''icc'' = None)
   \<and> MetadataBaton_new (baton example_worker)
   \<and> density (baton (fst (Execute (example_common (Inr (example_image, Recognised 0))) example_worker example_world)))
       = 72
   \<and> density (baton (fst (Execute (example_common (Inl ''bad seek'')) example_worker example_world)))
       = 0"
proof -
  let ?wk = "example_worker\<lparr>baton := example_baton\<lparr>density := 72, exif := 1, exifLength := 3\<rparr>\<rparr>"
  let ?env = "example_common (Inr (example_image, Recognised 0))"
  let ?env' = "example_common (Inl ''bad seek'')"
  have n: "err (baton ?wk) = []"
    by (simp add: example_baton_def)
  have m: "MetadataBaton_new (baton example_worker)"
    by (simp add: MetadataBaton_new_def example_worker_def example_baton_def)
  obtain obj where
    o: "callback_argvs (task_calls example_world (HandleOKCallback ?wk example_world)) = [[Null, Object obj]]"
    and f: "map_of obj ''format'' = Some (String (format (baton ?wk)))"
    and d: "map_of obj ''density'' =
           (if density (baton ?wk) > 0 then Some (Uint32 (word_of_int (density (baton ?wk)))) else None)"
    and r: "map_of obj ''orientation'' =
           (if orientation (baton ?wk) > 0 then Some (Uint32 (word_of_int (orientation (baton ?wk)))) else None)"
    and x: "map_of obj ''exif'' =
           (if exifLength (baton ?wk) > 0 then Some (Buffer (exif (baton ?wk)) (exifLength (baton ?wk))) else None)"
    and i: "map_of obj ''icc'' =
           (if iccLength (baton ?wk) > 0 then Some (Buffer (icc (baton ?wk)) (iccLength (baton ?wk))) else None)"
    and e1: "MetadataBaton_new (baton example_worker) \<longrightarrow>
          density (baton (fst (Execute ?env example_worker example_world))) =
           (case OpenInput ?env (input (baton example_worker)) VIPS_ACCESS_SEQUENTIAL of
              Inl what \<Rightarrow> 0
            | Inr (img, ty) \<Rightarrow> if ty \<noteq> UNKNOWN \<and> HasDensity ?env img then GetDensity ?env img else 0)"
    using metadata_record_fields [OF n, of example_world ?env example_worker example_world]
    by blast
  have e2: "MetadataBaton_new (baton example_worker) \<longrightarrow>
          density (baton (fst (Execute ?env' example_worker example_world))) =
           (case OpenInput ?env' (input (baton example_worker)) VIPS_ACCESS_SEQUENTIAL of
              Inl what \<Rightarrow> 0
            | Inr (img, ty) \<Rightarrow> if ty \<noteq> UNKNOWN \<and> HasDensity ?env' img then GetDensity ?env' img else 0)"
    using metadata_record_fields [OF n, of example_world ?env' example_worker example_world]
    by blast
  have a: "\<exists>obj. callback_argvs (task_calls example_world (HandleOKCallback ?wk example_world)) = [[Null, Object obj]]
        \<and> map_of obj ''format'' = Some (String [])
        \<and> map_of obj ''density'' = Some (Uint32 72)
        \<and> map_of obj ''orientation'' = None
        \<and> map_of obj ''exif'' = Some (Buffer 1 3)
        \<and> map_of obj ''icc'' = None"
    using o f d r x i by (intro exI [of _ obj]) (simp add: example_baton_def)
  have b: "density (baton (fst (Execute ?env example_worker example_world))) = 72"
    using e1 m by (simp add: example_common_def)
  have c: "density (baton (fst (Execute ?env' example_worker example_world))) = 0"
    using e2 m by (simp add: example_common_def)
  from n a m b c show ?thesis by blast
qed

subsection \<open>C5: EXIF and ICC blocks are copied into buffers of their own\<close>

text \<open>
  C5. Let header-open return an image of a recognised type, on a heap that satisfies the
  allocator's invariant. If the image carries an EXIF block, then after execution the
  baton's \<open>exifLength\<close> is the block's byte length and the \<open>exifLength\<close> bytes at
  \<open>exif\<close> are the block's bytes; for a block of at least one byte the buffer is a block
  of the heap that did not exist before and holds exactly these bytes. If the image
  carries no EXIF block, \<open>exif\<close> and \<open>exifLength\<close> keep their values (length 0 for a newly
  created baton). The same holds for the ICC block with \<open>icc\<close> and \<open>iccLength\<close>. Every
  block that existed before is unchanged, the only new blocks are these buffers, and the
  two buffers are different blocks. When the baton holds no error, the metadata object
  handed to the callback has, for a block of at least one byte, an exif (icc) buffer
  whose bytes are the block's bytes, and no exif (icc) field when the block is absent
  from the image of a newly created baton or has no bytes.
\<close>

theorem blobs_copied_into_own_buffers:
  assumes "heap_ok w"
    and "OpenInput env (input (baton wk)) VIPS_ACCESS_SEQUENTIAL = Inr (img, ty)"
    and "ty \<noteq> UNKNOWN"
  shows "(case blob_field img VIPS_META_EXIF_NAME of
            Some bs \<Rightarrow>
              fresh_copy w (snd (Execute env wk w))
                (exif (baton (fst (Execute env wk w)))) (exifLength (baton (fst (Execute env wk w)))) bs
          | None \<Rightarrow>
              exifLength (baton (fst (Execute env wk w))) = exifLength (baton wk)
              \<and> exif (baton (fst (Execute env wk w))) = exif (baton wk))
       \<and> (case blob_field img VIPS_META_ICC_NAME of
            Some bs \<Rightarrow>
              fresh_copy w (snd (Execute env wk w))
                (icc (baton (fst (Execute env wk w)))) (iccLength (baton (fst (Execute env wk w)))) bs
          | None \<Rightarrow>
              iccLength (baton (fst (Execute env wk w))) = iccLength (baton wk)
              \<and> icc (baton (fst (Execute env wk w))) = icc (baton wk))
       \<and> (\<forall>a. cells w a \<noteq> None \<longrightarrow> cells (snd (Execute env wk w)) a = cells w a)
       \<and> dom (cells (snd (Execute env wk w))) =
            dom (cells w)
            \<union> (case blob_field img VIPS_META_EXIF_NAME of
                 Some bs \<Rightarrow> if bs = [] then {} else {exif (baton (fst (Execute env wk w)))}
               | None \<Rightarrow> {})
            \<union> (case blob_field img VIPS_META_ICC_NAME of
                 Some bs \<Rightarrow> if bs = [] then {} else {icc (baton (fst (Execute env wk w)))}
               | None \<Rightarrow> {})
       \<and> (0 < exifLength (baton (fst (Execute env wk w))) \<and> 0 < iccLength (baton (fst (Execute env wk w)))
             \<and> blob_field img VIPS_META_EXIF_NAME \<noteq> None \<and> blob_field img VIPS_META_ICC_NAME \<noteq> None
           \<longrightarrow> exif (baton (fst (Execute env wk w))) \<noteq> icc (baton (fst (Execute env wk w))))
       \<and> (MetadataBaton_new (baton wk) \<longrightarrow>
            (\<exists>obj. callback_argvs (task_calls (snd (Execute env wk w))
                      (HandleOKCallback (fst (Execute env wk w)) (snd (Execute env wk w))))
                    = [[Null, Object obj]]
               \<and> result_buffer_is (HandleOKCallback (fst (Execute env wk w)) (snd (Execute env wk w)))
                     obj ''exif''
                     (case blob_field img VIPS_META_EXIF_NAME of Some bs \<Rightarrow> bs | None \<Rightarrow> [])
               \<and> result_buffer_is (HandleOKCallback (fst (Execute env wk w)) (snd (Execute env wk w)))
                     obj ''icc''
                     (case blob_field img VIPS_META_ICC_NAME of Some bs \<Rightarrow> bs | None \<Rightarrow> [])))"
proof -
  let ?b = "baton (fst (Execute env wk w))"
  let ?w = "snd (Execute env wk w)"
  let ?ex = "blob_field img VIPS_META_EXIF_NAME"
  let ?ic = "blob_field img VIPS_META_ICC_NAME"
  note e = Execute_blobs [OF assms refl refl]
  have hb: "cells w NULL = None" "cells w (brk w) = None" "cells w (Suc (brk w)) = None" "brk w \<noteq> NULL"
    using assms(1) by (simp_all add: heap_ok_def)
  have c1: "case ?ex of
            Some bs \<Rightarrow> fresh_copy w ?w (exif ?b) (exifLength ?b) bs
          | None \<Rightarrow> exifLength ?b = exifLength (baton wk) \<and> exif ?b = exif (baton wk)"
    using hb by (auto simp add: e fresh_copy_def load_def map_add_def split: option.splits)
  have c2: "case ?ic of
            Some bs \<Rightarrow> fresh_copy w ?w (icc ?b) (iccLength ?b) bs
          | None \<Rightarrow> iccLength ?b = iccLength (baton wk) \<and> icc ?b = icc (baton wk)"
    using hb by (auto simp add: e fresh_copy_def load_def map_add_def split: option.splits)
  have c3: "\<forall>a. cells w a \<noteq> None \<longrightarrow> cells ?w a = cells w a"
    using hb by (auto simp add: e map_add_def split: option.splits)
  have c4: "dom (cells ?w) =
            dom (cells w)
            \<union> (case ?ex of Some bs \<Rightarrow> if bs = [] then {} else {exif ?b} | None \<Rightarrow> {})
            \<union> (case ?ic of Some bs \<Rightarrow> if bs = [] then {} else {icc ?b} | None \<Rightarrow> {})"
    by (auto simp add: e split: option.splits if_splits)
  have c5: "0 < exifLength ?b \<and> 0 < iccLength ?b \<and> ?ex \<noteq> None \<and> ?ic \<noteq> None \<longrightarrow> exif ?b \<noteq> icc ?b"
    by (auto simp add: e split: option.splits if_splits)
  have c6: "MetadataBaton_new (baton wk) \<longrightarrow>
            (\<exists>obj. callback_argvs (task_calls ?w (HandleOKCallback (fst (Execute env wk w)) ?w)) = [[Null, Object obj]]
               \<and> result_buffer_is (HandleOKCallback (fst (Execute env wk w)) ?w) obj ''exif''
                     (case ?ex of Some bs \<Rightarrow> bs | None \<Rightarrow> [])
               \<and> result_buffer_is (HandleOKCallback (fst (Execute env wk w)) ?w) obj ''icc''
                     (case ?ic of Some bs \<Rightarrow> bs | None \<Rightarrow> []))"
  proof
    assume n: "MetadataBaton_new (baton wk)"
    then have "err ?b = []"
      by (simp add: Execute_Recognised(10) [OF assms(2,3)] MetadataBaton_new_def)
    then obtain obj where
      o: "callback_argvs (task_calls ?w (HandleOKCallback (fst (Execute env wk w)) ?w)) = [[Null, Object obj]]"
      and x: "map_of obj ''exif'' = (if exifLength ?b > 0 then Some (Buffer (exif ?b) (exifLength ?b)) else None)"
      and i: "map_of obj ''icc'' = (if iccLength ?b > 0 then Some (Buffer (icc ?b) (iccLength ?b)) else None)"
      using HandleOKCallback_blob_fields [of "fst (Execute env wk w)" ?w] by blast
    have rx: "result_buffer_is (HandleOKCallback (fst (Execute env wk w)) ?w) obj ''exif''
                     (case ?ex of Some bs \<Rightarrow> bs | None \<Rightarrow> [])"
      using c1 n unfolding result_buffer_is_def load_HandleOKCallback x
      by (auto simp add: fresh_copy_def MetadataBaton_new_def split: option.splits if_splits)
    have ri: "result_buffer_is (HandleOKCallback (fst (Execute env wk w)) ?w) obj ''icc''
                     (case ?ic of Some bs \<Rightarrow> bs | None \<Rightarrow> [])"
      using c2 n unfolding result_buffer_is_def load_HandleOKCallback i
      by (auto simp add: fresh_copy_def MetadataBaton_new_def split: option.splits if_splits)
    from o rx ri show "\<exists>obj. callback_argvs (task_calls ?w (HandleOKCallback (fst (Execute env wk w)) ?w)) = [[Null, Object obj]]
               \<and> result_buffer_is (HandleOKCallback (fst (Execute env wk w)) ?w) obj ''exif''
                     (case ?ex of Some bs \<Rightarrow> bs | None \<Rightarrow> [])
               \<and> result_buffer_is (HandleOKCallback (fst (Execute env wk w)) ?w) obj ''icc''
                     (case ?ic of Some bs \<Rightarrow> bs | None \<Rightarrow> [])"
      by blast
  qed
  from c1 c2 c3 c4 c5 c6 show ?thesis by blast
qed

theorem blobs_copied_into_own_buffers_witness:
  "heap_ok example_world
   \<and> OpenInput (example_common (Inr (example_image, Recognised 0))) (input (baton example_worker))
         VIPS_ACCESS_SEQUENTIAL = Inr (example_image, Recognised 0)
   \<and> Recognised (0::nat) \<noteq> UNKNOWN
   \<and> blob_field example_image VIPS_META_EXIF_NAME = Some [1, 2, 3]
   \<and> blob_field example_image VIPS_META_ICC_NAME = None
   \<and> exifLength (baton (fst (Execute (example_common (Inr (example_image, Recognised 0))) example_worker example_world))) = 3
   \<and> load (snd (Execute (example_common (Inr (example_image, Recognised 0))) example_worker example_world))
        (exif (baton (fst (Execute (example_common (Inr (example_image, Recognised 0))) example_worker example_world)))) 3
      = Some [1, 2, 3]
   \<and> cells example_world
        (exif (baton (fst (Execute (example_common (Inr (example_image, Recognised 0))) example_worker example_world))))
      = None
   \<and> iccLength (baton (fst (Execute (example_common (Inr (example_image, Recognised 0))) example_worker example_world))) = 0
   \<and> dom (cells (snd (Execute (example_common (Inr (example_image, Recognised 0))) example_worker example_world)))
      = {exif (baton (fst (Execute (example_common (Inr (example_image, Recognised 0))) example_worker example_world)))}"
proof -
  let ?env = "example_common (Inr (example_image, Recognised 0))"
  have h: "heap_ok example_world"
    by (simp add: heap_ok_def example_world_def NULL_def)
  have o: "OpenInput ?env (input (baton example_worker)) VIPS_ACCESS_SEQUENTIAL = Inr (example_image, Recognised 0)"
    by (simp add: example_common_def)
  have u: "Recognised (0::nat) \<noteq> UNKNOWN"
    by simp
  have x: "blob_field example_image VIPS_META_EXIF_NAME = Some [1, 2, 3]"
    by (simp add: blob_field_def example_image_def)
  have i: "blob_field example_image VIPS_META_ICC_NAME = None"
    by (simp add: blob_field_def example_image_def VIPS_META_EXIF_NAME_def VIPS_META_ICC_NAME_def)
  have z: "iccLength (baton example_worker) = 0" "dom (cells example_world) = {}"
    by (simp_all add: example_worker_def example_baton_def example_world_def)
  let ?b = "baton (fst (Execute ?env example_worker example_world))"
  let ?w = "snd (Execute ?env example_worker example_world)"
  note t = blobs_copied_into_own_buffers [OF h o u]
  from t have "fresh_copy example_world ?w (exif ?b) (exifLength ?b) [1, 2, 3]"
    by (simp add: x)
  then have f: "exifLength ?b = length [1::byte, 2, 3] \<and> load ?w (exif ?b) (exifLength ?b) = Some [1, 2, 3]
      \<and> (if [1::byte, 2, 3] = [] then exif ?b = NULL
          else cells example_world (exif ?b) = None \<and> cells ?w (exif ?b) = Some [1, 2, 3])"
    unfolding fresh_copy_def .
  from f have "exifLength ?b = length [1::byte, 2, 3]"
    by (rule conjunct1)
  then have a1: "exifLength ?b = 3"
    by simp
  from f have "load ?w (exif ?b) (exifLength ?b) = Some [1, 2, 3]"
    by (rule conjunct2 [THEN conjunct1])
  then have a2: "load ?w (exif ?b) 3 = Some [1, 2, 3]"
    unfolding a1 .
  from f have "if [1::byte, 2, 3] = [] then exif ?b = NULL
          else cells example_world (exif ?b) = None \<and> cells ?w (exif ?b) = Some [1, 2, 3]"
    by (rule conjunct2 [THEN conjunct2])
  then have a3: "cells example_world (exif ?b) = None"
    by simp
  from t have b: "iccLength ?b = 0"
    by (simp add: i z)
  from t have c: "dom (cells ?w) = {exif ?b}"
    by (simp add: x i z)
  from h o u x i a1 a2 a3 b c show ?thesis
    by blast
qed

subsection \<open>C6: the queued-task counter\<close>

text \<open>
  C6, as the claim states it, fails: the submit call hands the worker to
  \<open>Nan::AsyncQueueWorker\<close> first and increments the counter afterwards, so the increment
  does not come before the queueing.
\<close>

theorem counter_incremented_after_queueing:
  "task_calls example_world
     (snd (metadata (example_common (Inl ''bad seek'')) example_info example_baton example_world))
     = [SaveToPersistent 0 (Buffer 4096 4), AsyncQueueWorker, g_atomic_int_inc]
   \<and> \<not> happens_before g_atomic_int_inc AsyncQueueWorker
         (task_calls example_world
            (snd (metadata (example_common (Inl ''bad seek'')) example_info example_baton example_world)))"
  by (simp add: metadata_eq task_calls_def example_common_def example_info_def example_world_def arg_def)

text \<open>
  C6, amended. For every submitted task the counter is incremented exactly once, as the
  last step of the submit call, after the worker has been handed to the pool's queue;
  it is decremented exactly once, as the first step of the execution body. Submission
  adds one, execution subtracts one (on the 32-bit counter), and after both, in
  either order, the counter is back at its value before the task.
\<close>

theorem counter_inc_after_queue_dec_at_start:
  "(\<exists>pre. task_calls w (snd (metadata env info b_new w)) = pre @ [AsyncQueueWorker, g_atomic_int_inc]
          \<and> count_list pre AsyncQueueWorker = 0 \<and> count_list pre g_atomic_int_inc = 0)
   \<and> happens_before AsyncQueueWorker g_atomic_int_inc (task_calls w (snd (metadata env info b_new w)))
   \<and> counterQueue (snd (metadata env info b_new w)) = counterQueue w + 1
   \<and> (\<exists>post. task_calls w' (snd (Execute env wk w')) = g_atomic_int_dec_and_test # post
          \<and> count_list post g_atomic_int_dec_and_test = 0)
   \<and> counterQueue (snd (Execute env wk w')) = counterQueue w' - 1
   \<and> count_list (task_calls w (run_task env info b_new w)) g_atomic_int_inc = 1
   \<and> count_list (task_calls w (run_task env info b_new w)) g_atomic_int_dec_and_test = 1
   \<and> counterQueue (run_task env info b_new w) = counterQueue w
   \<and> counterQueue (snd (metadata env info b_new (snd (Execute env wk w')))) = counterQueue w'"
proof -
  obtain inp bufs where c: "CreateInputDescriptor env (AttrAs env (arg info 0) ''input'') [] = (inp, bufs)"
    by (cases "CreateInputDescriptor env (AttrAs env (arg info 0) ''input'') []") blast
  let ?pre = "map (\<lambda>k. SaveToPersistent (of_nat k) (bufs ! k)) [0..<length bufs]"
  have m: "task_calls w (snd (metadata env info b_new w)) = ?pre @ [AsyncQueueWorker, g_atomic_int_inc]"
    by (rule task_calls_append) (rule metadata_parts(2) [OF c])
  have pre: "count_list ?pre AsyncQueueWorker = 0 \<and> count_list ?pre g_atomic_int_inc = 0"
    by (simp add: count_list_pins)
  have s1: "\<exists>pre. task_calls w (snd (metadata env info b_new w)) = pre @ [AsyncQueueWorker, g_atomic_int_inc]
          \<and> count_list pre AsyncQueueWorker = 0 \<and> count_list pre g_atomic_int_inc = 0"
    using m pre by blast
  have s2: "happens_before AsyncQueueWorker g_atomic_int_inc (task_calls w (snd (metadata env info b_new w)))"
    unfolding m by (simp add: happens_before_after_pins)
  have s3: "counterQueue (snd (metadata env info b_new w)) = counterQueue w + 1"
    by (rule metadata_parts(3) [OF c])
  have "task_calls w' (snd (Execute env wk w')) =
      [g_atomic_int_dec_and_test, vips_error_clear, vips_thread_shutdown]"
    by (rule task_calls_append) (rule Execute_calls)
  then have s4: "\<exists>post. task_calls w' (snd (Execute env wk w')) = g_atomic_int_dec_and_test # post
          \<and> count_list post g_atomic_int_dec_and_test = 0"
    by simp
  have s5: "counterQueue (snd (Execute env wk w')) = counterQueue w' - 1"
    by (rule Execute_counter)
  obtain argv where
    "calls (run_task env info b_new w) =
           calls w @ ?pre
             @ [AsyncQueueWorker, g_atomic_int_inc,
                g_atomic_int_dec_and_test, vips_error_clear, vips_thread_shutdown]
             @ map (\<lambda>k. GetFromPersistent (of_nat k)) [0..<length bufs]
             @ [delete_input, delete_baton, callback_Call (arg info 1) argv]"
    using run_task_calls [OF c, of b_new w] by blast
  then have cs: "task_calls w (run_task env info b_new w) =
           ?pre
             @ [AsyncQueueWorker, g_atomic_int_inc,
                g_atomic_int_dec_and_test, vips_error_clear, vips_thread_shutdown]
             @ map (\<lambda>k. GetFromPersistent (of_nat k)) [0..<length bufs]
             @ [delete_input, delete_baton, callback_Call (arg info 1) argv]"
    by (rule task_calls_append)
  have s6: "count_list (task_calls w (run_task env info b_new w)) g_atomic_int_inc = 1"
    unfolding cs by (simp add: count_list_pins count_list_unpins)
  have s7: "count_list (task_calls w (run_task env info b_new w)) g_atomic_int_dec_and_test = 1"
    unfolding cs by (simp add: count_list_pins count_list_unpins)
  have s8: "counterQueue (run_task env info b_new w) = counterQueue w"
    by (rule run_task_counter)
  have s9: "counterQueue (snd (metadata env info b_new (snd (Execute env wk w')))) = counterQueue w'"
    by (simp add: metadata_parts(3) [OF c] Execute_counter)
  from s1 s2 s3 s4 s5 s6 s7 s8 s9 show ?thesis by blast
qed

theorem counter_inc_after_queue_dec_at_start_witness:
  "happens_before AsyncQueueWorker g_atomic_int_inc
     (task_calls example_world
        (snd (metadata (example_common (Inl ''bad seek'')) example_info example_baton example_world)))
   \<and> counterQueue (snd (metadata (example_common (Inl ''bad seek'')) example_info example_baton example_world)) = 1
   \<and> counterQueue (snd (Execute (example_common (Inl ''bad seek'')) example_worker example_world)) = - 1
   \<and> counterQueue (run_task (example_common (Inl ''bad seek'')) example_info example_baton example_world) = 0"
  using counter_inc_after_queue_dec_at_start
    [of example_world "example_common (Inl ''bad seek'')" example_info example_baton example_world example_worker]
  by (simp add: example_world_def)

subsection \<open>C7: pinned buffers are released once each, in index order\<close>

text \<open>
  C7. Let \<open>bufs\<close> be the buffers the input descriptor's construction put into
  \<open>buffersToPersist\<close>. Over a whole task the worker saves buffer \<open>k\<close> of \<open>bufs\<close> to its
  persistent handle under index \<open>k\<close>, all of them at submission, and at completion calls
  \<open>GetFromPersistent\<close> (the release step of the source, "dispose of Persistent wrapper")
  once for each index, in the same ascending order. The number of releases equals the
  number of pins, no release precedes the end of the execution body, and the released
  indices are pairwise distinct (the index is a 32-bit counter, so this needs at most
  \<open>2 ^ 32\<close> buffers).
\<close>

theorem pins_and_releases_match:
  assumes "CreateInputDescriptor env (AttrAs env (arg info 0) ''input'') [] = (inp, bufs)"
  shows "pins (task_calls w (run_task env info b_new w)) = map (\<lambda>k. (of_nat k, bufs ! k)) [0..<length bufs]
       \<and> unpins (task_calls w (run_task env info b_new w)) = map of_nat [0..<length bufs]
       \<and> map fst (pins (task_calls w (run_task env info b_new w))) = unpins (task_calls w (run_task env info b_new w))
       \<and> length (pins (task_calls w (run_task env info b_new w))) = length bufs
       \<and> length (unpins (task_calls w (run_task env info b_new w))) = length bufs
       \<and> pins (task_calls w (snd (metadata env info b_new w))) = pins (task_calls w (run_task env info b_new w))
       \<and> unpins (task_calls w (snd (Execute env (fst (metadata env info b_new w)) (snd (metadata env info b_new w))))) = []
       \<and> (length bufs \<le> 2 ^ 32 \<longrightarrow> distinct (unpins (task_calls w (run_task env info b_new w))))"
proof -
  let ?m = "metadata env info b_new w"
  let ?cs = "task_calls w (run_task env info b_new w)"
  obtain argv where
    "calls (run_task env info b_new w) =
           calls w @ map (\<lambda>k. SaveToPersistent (of_nat k) (bufs ! k)) [0..<length bufs]
             @ [AsyncQueueWorker, g_atomic_int_inc,
                g_atomic_int_dec_and_test, vips_error_clear, vips_thread_shutdown]
             @ map (\<lambda>k. GetFromPersistent (of_nat k)) [0..<length bufs]
             @ [delete_input, delete_baton, callback_Call (arg info 1) argv]"
    using run_task_calls [OF assms, of b_new w] by blast
  then have cs: "?cs =
           map (\<lambda>k. SaveToPersistent (of_nat k) (bufs ! k)) [0..<length bufs]
             @ [AsyncQueueWorker, g_atomic_int_inc,
                g_atomic_int_dec_and_test, vips_error_clear, vips_thread_shutdown]
             @ map (\<lambda>k. GetFromPersistent (of_nat k)) [0..<length bufs]
             @ [delete_input, delete_baton, callback_Call (arg info 1) argv]"
    by (rule task_calls_append)
  have p: "pins ?cs = map (\<lambda>k. (of_nat k, bufs ! k)) [0..<length bufs]"
    unfolding cs by (simp add: pins_append pins_Save pins_Get)
  have u: "unpins ?cs = map of_nat [0..<length bufs]"
    unfolding cs by (simp add: unpins_append unpins_Save unpins_Get)
  have same: "map fst (pins ?cs) = unpins ?cs"
    unfolding p u by (simp add: o_def)
  have m: "task_calls w (snd ?m) =
      map (\<lambda>k. SaveToPersistent (of_nat k) (bufs ! k)) [0..<length bufs] @ [AsyncQueueWorker, g_atomic_int_inc]"
    by (rule task_calls_append) (rule metadata_parts(2) [OF assms])
  have pm: "pins (task_calls w (snd ?m)) = pins ?cs"
    unfolding p m by (simp add: pins_append pins_Save)
  have "calls (snd (Execute env (fst ?m) (snd ?m))) =
      calls w @ map (\<lambda>k. SaveToPersistent (of_nat k) (bufs ! k)) [0..<length bufs]
        @ [AsyncQueueWorker, g_atomic_int_inc,
           g_atomic_int_dec_and_test, vips_error_clear, vips_thread_shutdown]"
    by (simp add: Execute_calls metadata_parts(2) [OF assms])
  then have "task_calls w (snd (Execute env (fst ?m) (snd ?m))) =
      map (\<lambda>k. SaveToPersistent (of_nat k) (bufs ! k)) [0..<length bufs]
        @ [AsyncQueueWorker, g_atomic_int_inc,
           g_atomic_int_dec_and_test, vips_error_clear, vips_thread_shutdown]"
    by (rule task_calls_append)
  then have early: "unpins (task_calls w (snd (Execute env (fst ?m) (snd ?m)))) = []"
    by (simp add: unpins_append unpins_Save)
  have d: "length bufs \<le> 2 ^ 32 \<longrightarrow> distinct (unpins ?cs)"
    unfolding u by (simp add: distinct_word_indices)
  from p u same pm early d show ?thesis by simp
qed

theorem pins_and_releases_match_witness:
  "CreateInputDescriptor (example_common (Inl ''bad seek''))
       (AttrAs (example_common (Inl ''bad seek'')) (arg example_info 0) ''input'') []
     = (''buffer'', [Buffer 4096 4])
   \<and> pins (task_calls example_world
         (run_task (example_common (Inl ''bad seek'')) example_info example_baton example_world))
       = [(0, Buffer 4096 4)]
   \<and> unpins (task_calls example_world
         (run_task (example_common (Inl ''bad seek'')) example_info example_baton example_world))
       = [0]
   \<and> distinct (unpins (task_calls example_world
         (run_task (example_common (Inl ''bad seek'')) example_info example_baton example_world)))"
proof -
  have c: "CreateInputDescriptor (example_common (Inl ''bad seek''))
       (AttrAs (example_common (Inl ''bad seek'')) (arg example_info 0) ''input'') []
     = (''buffer'', [Buffer 4096 4])"
    by (simp add: example_common_def example_info_def arg_def)
  show ?thesis
    using c pins_and_releases_match [OF c, of example_world example_baton]
    by simp
qed

subsection \<open>C8: cleanup on every exit path\<close>



subsection \<open>C9: order of the completion steps\<close>

text \<open>
  C9. \<open>HandleOKCallback\<close> makes its calls in this order, whatever the baton holds: one
  \<open>GetFromPersistent\<close> per pinned buffer, by ascending index; then the release of the
  input descriptor; then the release of the baton; and last the completion callback.
  Over a whole task, from submission to completion, the callback is called exactly
  once.
\<close>

theorem completion_steps_in_order:
  "(\<exists>argv. task_calls w (HandleOKCallback wk w) =
       map (\<lambda>k. GetFromPersistent (of_nat k)) [0..<length (buffersToPersist wk)]
         @ [delete_input, delete_baton, callback_Call (callback wk) argv])
   \<and> length (callback_argvs (task_calls w0 (run_task env info b_new w0))) = 1"
proof
  obtain argv where
    "calls (HandleOKCallback wk w) =
       calls w @ map (\<lambda>k. GetFromPersistent (of_nat k)) [0..<length (buffersToPersist wk)]
         @ [delete_input, delete_baton, callback_Call (callback wk) argv]"
    using HandleOKCallback_calls [of wk w] by blast
  then show "\<exists>argv. task_calls w (HandleOKCallback wk w) =
       map (\<lambda>k. GetFromPersistent (of_nat k)) [0..<length (buffersToPersist wk)]
         @ [delete_input, delete_baton, callback_Call (callback wk) argv]"
    by (auto intro: task_calls_append)
next
  obtain inp bufs where c: "CreateInputDescriptor env (AttrAs env (arg info 0) ''input'') [] = (inp, bufs)"
    by (cases "CreateInputDescriptor env (AttrAs env (arg info 0) ''input'') []") blast
  obtain argv where
    "calls (run_task env info b_new w0) =
           calls w0 @ map (\<lambda>k. SaveToPersistent (of_nat k) (bufs ! k)) [0..<length bufs]
             @ [AsyncQueueWorker, g_atomic_int_inc,
                g_atomic_int_dec_and_test, vips_error_clear, vips_thread_shutdown]
             @ map (\<lambda>k. GetFromPersistent (of_nat k)) [0..<length bufs]
             @ [delete_input, delete_baton, callback_Call (arg info 1) argv]"
    using run_task_calls [OF c, of b_new w0] by blast
  then have "task_calls w0 (run_task env info b_new w0) =
           map (\<lambda>k. SaveToPersistent (of_nat k) (bufs ! k)) [0..<length bufs]
             @ [AsyncQueueWorker, g_atomic_int_inc,
                g_atomic_int_dec_and_test, vips_error_clear, vips_thread_shutdown]
             @ map (\<lambda>k. GetFromPersistent (of_nat k)) [0..<length bufs]
             @ [delete_input, delete_baton, callback_Call (arg info 1) argv]"
    by (rule task_calls_append)
  then show "length (callback_argvs (task_calls w0 (run_task env info b_new w0))) = 1"
    by (simp add: callback_argvs_append callback_argvs_Save callback_argvs_Get)
qed

theorem completion_steps_in_order_witness:
  "task_calls example_world (HandleOKCallback example_worker example_world) =
     [GetFromPersistent 0, delete_input, delete_baton,
      callback_Call (Function 7)
        [Null, Object [(''format'', String []), (''width'', Uint32 0), (''height'', Uint32 0),
                       (''space'', String []), (''channels'', Uint32 0),
                       (''hasProfile'', Boolean False), (''hasAlpha'', Boolean False)]]]
   \<and> length (callback_argvs (task_calls example_world
         (run_task (example_common (Inl ''bad seek'')) example_info example_baton example_world))) = 1"
proof -
  have "task_calls example_world (HandleOKCallback example_worker example_world) =
     [GetFromPersistent 0, delete_input, delete_baton,
      callback_Call (Function 7)
        [Null, Object [(''format'', String []), (''width'', Uint32 0), (''height'', Uint32 0),
                       (''space'', String []), (''channels'', Uint32 0),
                       (''hasProfile'', Boolean False), (''hasAlpha'', Boolean False)]]]"
    by (simp add: HandleOKCallback_def Let_def record_call_def task_calls_def Nan_Set_def
        example_worker_def example_baton_def example_world_def)
  then show ?thesis
    using completion_steps_in_order [of example_world example_worker example_world
        "example_common (Inl ''bad seek'')" example_info example_baton]
    by simp
qed

subsection \<open>C10: the outcome follows the emptiness of the error string alone\<close>

text \<open>
  C10. Over a whole task started on a newly created baton, the callback is called once,
  and its arguments are a failure (an \<open>Error\<close> and \<open>null\<close>) exactly when header-open
  raised and the message it carried, read as a C string, has at least one character,
  that is, exactly when execution appended a character to the error field. A
  header-open failure whose message is the empty string is delivered as a success:
  \<open>null\<close> and a metadata object.
\<close>

theorem outcome_by_error_string_alone:
  assumes "MetadataBaton_new b_new"
  shows "\<exists>argv. callback_argvs (task_calls w (run_task env info b_new w)) = [argv]
           \<and> ((\<exists>m. argv = [Error m, Null]) =
                (case OpenInput env (input (baton (fst (metadata env info b_new w)))) VIPS_ACCESS_SEQUENTIAL of
                   Inl what \<Rightarrow> c_str what \<noteq> [] | Inr r \<Rightarrow> False))
           \<and> ((\<exists>m. argv = [Error m, Null]) =
                (err (baton (fst (Execute env (fst (metadata env info b_new w)) (snd (metadata env info b_new w)))))
                   \<noteq> err b_new))
           \<and> (OpenInput env (input (baton (fst (metadata env info b_new w)))) VIPS_ACCESS_SEQUENTIAL = Inl []
                \<longrightarrow> (\<exists>obj. argv = [Null, Object obj]))"
proof -
  let ?m = "metadata env info b_new w"
  let ?r = "OpenInput env (input (baton (fst ?m))) VIPS_ACCESS_SEQUENTIAL"
  obtain argv where one: "callback_argvs (task_calls w (run_task env info b_new w)) = [argv]"
    and out: "case ?r of
                 Inl what \<Rightarrow> if c_str what \<noteq> [] then argv = [Error (c_str what), Null]
                             else \<exists>obj. argv = [Null, Object obj]
               | Inr r \<Rightarrow> \<exists>obj. argv = [Null, Object obj]"
    using task_outcome [OF assms, of w env info] by blast
  have a: "(\<exists>m. argv = [Error m, Null]) = (case ?r of Inl what \<Rightarrow> c_str what \<noteq> [] | Inr r \<Rightarrow> False)"
    using out by (auto split: sum.splits if_splits)
  have e: "err (baton (fst (Execute env (fst ?m) (snd ?m)))) =
     err b_new @ (case ?r of Inl what \<Rightarrow> c_str what | Inr r \<Rightarrow> [])"
    by (simp add: Execute_err metadata_baton_err split: sum.splits)
  have b: "(\<exists>m. argv = [Error m, Null]) =
           (err (baton (fst (Execute env (fst ?m) (snd ?m)))) \<noteq> err b_new)"
    unfolding a e by (simp split: sum.splits)
  have c: "?r = Inl [] \<longrightarrow> (\<exists>obj. argv = [Null, Object obj])"
    using out by (auto simp: c_str_Nil)
  from one a b c show ?thesis by blast
qed

theorem outcome_by_error_string_alone_witness:
  "MetadataBaton_new example_baton
   \<and> OpenInput (example_common (Inl [])) (input (baton (fst (metadata (example_common (Inl [])) example_info
         example_baton example_world)))) VIPS_ACCESS_SEQUENTIAL = Inl []
   \<and> (\<exists>obj. callback_argvs (task_calls example_world
               (run_task (example_common (Inl [])) example_info example_baton example_world))
             = [[Null, Object obj]])"
proof -
  have n: "MetadataBaton_new example_baton"
    by (simp add: MetadataBaton_new_def example_baton_def)
  have r: "OpenInput (example_common (Inl [])) (input (baton (fst (metadata (example_common (Inl [])) example_info
         example_baton example_world)))) VIPS_ACCESS_SEQUENTIAL = Inl []"
    by (simp add: example_common_def)
  from outcome_by_error_string_alone [OF n, of example_world "example_common (Inl [])" example_info] r
  have "\<exists>obj. callback_argvs (task_calls example_world
               (run_task (example_common (Inl [])) example_info example_baton example_world))
             = [[Null, Object obj]]"
    by auto
  with n r show ?thesis by blast
qed

end
